theory Spec2Isabelle
  imports Complex_Main "HOL-Library.Word"
begin

section \<open>Batch data-quality pipeline: viajes_enriquecidos to viajes_limpios\<close>

text \<open>
  Embedding of \<^verbatim>\<open>src/lib/batch_process_data_quality.py\<close>: the partition filter
  \<^verbatim>\<open>aplicar_filtros\<close>, the worker \<^verbatim>\<open>procesar_particion\<close> and the aggregation loop
  and exit status of \<^verbatim>\<open>main\<close>.
\<close>

subsection \<open>Polars expressions, one cell at a time\<close>

text \<open>
  A nullable cell is an \<open>option\<close>: \<open>None\<close> is Polars' null. The columns \<^verbatim>\<open>tv*\<close>,
  \<^verbatim>\<open>tc*\<close>, \<^verbatim>\<open>te*\<close> and \<^verbatim>\<open>dveh_euc*\<close> are \<^verbatim>\<open>pl.Int64\<close> (\<^verbatim>\<open>CSV_DTYPES\<close> in
  \<^verbatim>\<open>src/process_data.py\<close>): 64-bit words whose addition wraps and whose order is
  the signed one. \<^verbatim>\<open>Float64\<close> values stay abstract: any type \<open>'f\<close> with a zero and a
  linear order.
\<close>

type_synonym int64 = "64 word"

definition fill_null :: "'a option \<Rightarrow> 'a \<Rightarrow> 'a option" where
  "fill_null v d = (case v of None \<Rightarrow> Some d | Some x \<Rightarrow> Some x)"

definition expr_add :: "int64 option \<Rightarrow> int64 option \<Rightarrow> int64 option" where
  "expr_add a b =
     (case a of None \<Rightarrow> None
      | Some x \<Rightarrow> (case b of None \<Rightarrow> None | Some y \<Rightarrow> Some (x + y)))"

definition gt_int64 :: "int64 option \<Rightarrow> int64 \<Rightarrow> bool option" where
  "gt_int64 a k = (case a of None \<Rightarrow> None | Some x \<Rightarrow> Some (k <s x))"

definition gt_float64 :: "('f::linorder) option \<Rightarrow> 'f \<Rightarrow> bool option" where
  "gt_float64 a k = (case a of None \<Rightarrow> None | Some x \<Rightarrow> Some (k < x))"

definition is_null :: "'a option \<Rightarrow> bool option" where
  "is_null v = (case v of None \<Rightarrow> Some True | Some x \<Rightarrow> Some False)"

definition is_not_null :: "'a option \<Rightarrow> bool option" where
  "is_not_null v = (case v of None \<Rightarrow> Some False | Some x \<Rightarrow> Some True)"

text \<open>\<^verbatim>\<open>&\<close> on nullable booleans is Kleene's conjunction.\<close>

fun expr_and :: "bool option \<Rightarrow> bool option \<Rightarrow> bool option" where
  "expr_and (Some False) _ = Some False"
| "expr_and _ (Some False) = Some False"
| "expr_and (Some True) (Some True) = Some True"
| "expr_and _ _ = None"

text \<open>\<^verbatim>\<open>pl.when(c).then(a).otherwise(b)\<close>: \<open>a\<close> where \<open>c\<close> is true, else \<open>b\<close>.\<close>

definition when_then_otherwise :: "bool option \<Rightarrow> 'a option \<Rightarrow> 'a option \<Rightarrow> 'a option" where
  "when_then_otherwise c a b = (if c = Some True then a else b)"

text \<open>
  \<^verbatim>\<open>cast(pl.Float64, strict=False)\<close> of a string cell. The parser of one string is
  Polars' own and is a parameter: it yields \<open>None\<close> where the string is no number.
  A null cell stays null.
\<close>

definition cast_float64 :: "(string \<Rightarrow> 'f option) \<Rightarrow> string option \<Rightarrow> 'f option" where
  "cast_float64 parse v = (case v of None \<Rightarrow> None | Some s \<Rightarrow> parse s)"

subsection \<open>Polars' Float64\<close>

text \<open>
  The filter is written for any float type with a zero and a linear order. Polars'
  \<^verbatim>\<open>Float64\<close> is such a type: a finite value (an exact real here), an infinity, or
  NaN, in the total order that Polars compares and sorts by, where NaN stands above
  every other value, plus infinity included.
\<close>

datatype float64 = MinusInf | Finite real | PlusInf | NaN

fun rango :: "float64 \<Rightarrow> nat" where
  "rango MinusInf = 0"
| "rango (Finite x) = 1"
| "rango PlusInf = 2"
| "rango NaN = 3"

fun finito :: "float64 \<Rightarrow> real" where
  "finito (Finite x) = x"
| "finito MinusInf = 0"
| "finito PlusInf = 0"
| "finito NaN = 0"

instantiation float64 :: "{zero, linorder}"
begin

definition zero_float64 :: float64 where
  "zero_float64 = Finite 0"

definition less_eq_float64 :: "float64 \<Rightarrow> float64 \<Rightarrow> bool" where
  "less_eq_float64 a b = (rango a < rango b \<or> rango a = rango b \<and> finito a \<le> finito b)"

definition less_float64 :: "float64 \<Rightarrow> float64 \<Rightarrow> bool" where
  "less_float64 a b = (rango a < rango b \<or> rango a = rango b \<and> finito a < finito b)"

instance
proof
  fix x y z :: float64
  show "(x < y) = (x \<le> y \<and> \<not> y \<le> x)"
    by (auto simp: less_eq_float64_def less_float64_def)
  show "x \<le> x"
    by (simp add: less_eq_float64_def)
  show "x \<le> y \<Longrightarrow> y \<le> z \<Longrightarrow> x \<le> z"
    by (auto simp: less_eq_float64_def)
  show "x \<le> y \<Longrightarrow> y \<le> x \<Longrightarrow> x = y"
    by (cases x; cases y) (auto simp: less_eq_float64_def)
  show "x \<le> y \<or> y \<le> x"
    by (auto simp: less_eq_float64_def)
qed

end

subsection \<open>Trip records and data frames\<close>

text \<open>
  One row of a frame holds a slot for every column that \<^verbatim>\<open>aplicar_filtros\<close> reads or
  writes. The frame lists its column names in \<open>columns\<close>; the slot of a column that
  the frame does not have carries no meaning. The other columns of the wide trip
  record are never read and are not represented in a row.
\<close>

record 'f viaje =
  tv1 :: "int64 option"
  tv2 :: "int64 option"
  tv3 :: "int64 option"
  tv4 :: "int64 option"
  tc1 :: "int64 option"
  tc2 :: "int64 option"
  tc3 :: "int64 option"
  te0 :: "int64 option"
  te1 :: "int64 option"
  te2 :: "int64 option"
  te3 :: "int64 option"
  dveh_euc1 :: "int64 option"
  dveh_euc2 :: "int64 option"
  dveh_euc3 :: "int64 option"
  dveh_euc4 :: "int64 option"
  dveh_eucfinal :: "int64 option"
  distancia_ruta :: "string option"
  distancia_eucl :: "string option"
  paradero_inicio_viaje :: "string option"
  paradero_fin_viaje :: "string option"
  t_vehiculo_total_seg :: "int64 option"
  t_total_calculado_seg :: "int64 option"
  d_vehiculo_eucl_total_m :: "int64 option"
  distancia_ruta_float :: "'f option"
  distancia_eucl_float :: "'f option"

record 'r DataFrame =
  columns :: "string list"
  rows :: "'r list"

definition len :: "'r DataFrame \<Rightarrow> int" where
  "len df = int (length (rows df))"

text \<open>
  \<^verbatim>\<open>df.with_columns([... .alias(n) ...])\<close>: every expression reads the frame as it was;
  a name the frame has keeps its place, a new name is appended.
\<close>

definition with_columns :: "string list \<Rightarrow> ('r \<Rightarrow> 'r) \<Rightarrow> 'r DataFrame \<Rightarrow> 'r DataFrame" where
  "with_columns nombres f df =
     \<lparr>columns = columns df @ filter (\<lambda>n. n \<notin> set (columns df)) nombres,
      rows = map f (rows df)\<rparr>"

text \<open>\<^verbatim>\<open>df.filter(p)\<close> keeps the rows where the predicate is true; null counts as false.\<close>

definition filter_df :: "('r \<Rightarrow> bool option) \<Rightarrow> 'r DataFrame \<Rightarrow> 'r DataFrame" where
  "filter_df p df = df\<lparr>rows := filter (\<lambda>r. p r = Some True) (rows df)\<rparr>"

definition quitar_columna :: "string \<Rightarrow> 'f viaje \<Rightarrow> 'f viaje" where
  "quitar_columna c r =
     (if c = ''distancia_ruta_float'' then r\<lparr>distancia_ruta_float := None\<rparr>
      else if c = ''distancia_eucl_float'' then r\<lparr>distancia_eucl_float := None\<rparr>
      else r)"

definition drop_columns :: "string list \<Rightarrow> 'f viaje DataFrame \<Rightarrow> 'f viaje DataFrame" where
  "drop_columns cs df =
     \<lparr>columns = filter (\<lambda>c. c \<notin> set cs) (columns df),
      rows = map (fold quitar_columna cs) (rows df)\<rparr>"

subsection \<open>Exceptions\<close>

text \<open>
  Exceptions are values. \<open>Exception m\<close> is any subclass of Python's \<^verbatim>\<open>Exception\<close>
  raised by a library call, with \<open>str(e) = m\<close>.
\<close>

datatype excepcion = ZeroDivisionError | Exception string

fun str :: "excepcion \<Rightarrow> string" where
  "str ZeroDivisionError = ''division by zero''"
| "str (Exception m) = m"

definition truediv :: "int \<Rightarrow> int \<Rightarrow> excepcion + real" where
  "truediv a b = (if b = 0 then Inl ZeroDivisionError else Inr (real_of_int a / real_of_int b))"

subsection \<open>The partition filter\<close>

record totales =
  n_inicial :: int
  n_filtrados_tiempo :: int
  n_filtrados_paraderos :: int
  n_filtrados_dist :: int
  n_final :: int

record stats = totales +
  pct_retenido :: real

text \<open>Lines 74-86: the three derived columns.\<close>

definition columnas_calculadas :: "'f viaje DataFrame \<Rightarrow> 'f viaje DataFrame" where
  "columnas_calculadas df =
     with_columns [''t_vehiculo_total_seg'', ''t_total_calculado_seg'', ''d_vehiculo_eucl_total_m'']
       (\<lambda>r. r\<lparr>t_vehiculo_total_seg :=
                 expr_add (expr_add (expr_add (fill_null (tv1 r) 0) (fill_null (tv2 r) 0))
                   (fill_null (tv3 r) 0)) (fill_null (tv4 r) 0),
               t_total_calculado_seg :=
                 expr_add (expr_add (expr_add (expr_add (expr_add (expr_add (expr_add (expr_add
                   (expr_add (expr_add (fill_null (te0 r) 0) (fill_null (tv1 r) 0))
                   (fill_null (tc1 r) 0)) (fill_null (te1 r) 0)) (fill_null (tv2 r) 0))
                   (fill_null (tc2 r) 0)) (fill_null (te2 r) 0)) (fill_null (tv3 r) 0))
                   (fill_null (tc3 r) 0)) (fill_null (te3 r) 0)) (fill_null (tv4 r) 0),
               d_vehiculo_eucl_total_m :=
                 expr_add (expr_add (expr_add (fill_null (dveh_euc1 r) 0) (fill_null (dveh_euc2 r) 0))
                   (fill_null (dveh_euc3 r) 0)) (fill_null (dveh_euc4 r) 0)\<rparr>)
       df"

text \<open>Lines 89-92: filter A, by times.\<close>

definition filtro_tiempos :: "'f viaje DataFrame \<Rightarrow> 'f viaje DataFrame" where
  "filtro_tiempos df =
     filter_df (\<lambda>r. expr_and (gt_int64 (t_vehiculo_total_seg r) 0)
                              (gt_int64 (t_total_calculado_seg r) 0)) df"

text \<open>Lines 97-100: filter B, by stops.\<close>

definition filtro_paraderos :: "'f viaje DataFrame \<Rightarrow> 'f viaje DataFrame" where
  "filtro_paraderos df =
     filter_df (\<lambda>r. expr_and (is_not_null (paradero_inicio_viaje r))
                              (is_not_null (paradero_fin_viaje r))) df"

text \<open>Lines 106-111: a null \<^verbatim>\<open>dveh_eucfinal\<close> takes the derived distance sum.\<close>

definition imputar_dveh_eucfinal :: "'f viaje DataFrame \<Rightarrow> 'f viaje DataFrame" where
  "imputar_dveh_eucfinal df =
     with_columns [''dveh_eucfinal'']
       (\<lambda>r. r\<lparr>dveh_eucfinal :=
                 when_then_otherwise (is_null (dveh_eucfinal r))
                   (d_vehiculo_eucl_total_m r) (dveh_eucfinal r)\<rparr>)
       df"

text \<open>Lines 114-117: the two distances as floats, in two temporary columns.\<close>

definition convertir_distancias ::
  "(string \<Rightarrow> 'f option) \<Rightarrow> 'f viaje DataFrame \<Rightarrow> 'f viaje DataFrame" where
  "convertir_distancias parse df =
     with_columns [''distancia_ruta_float'', ''distancia_eucl_float'']
       (\<lambda>r. r\<lparr>distancia_ruta_float := cast_float64 parse (distancia_ruta r),
               distancia_eucl_float := cast_float64 parse (distancia_eucl r)\<rparr>)
       df"

text \<open>Lines 120-127: filter C, by distances.\<close>

definition filtro_distancias :: "('f::{zero,linorder}) viaje DataFrame \<Rightarrow> 'f viaje DataFrame" where
  "filtro_distancias df =
     filter_df (\<lambda>r.
       expr_and (expr_and (expr_and (expr_and (expr_and
         (is_not_null (distancia_ruta_float r))
         (gt_float64 (distancia_ruta_float r) 0))
         (is_not_null (distancia_eucl_float r)))
         (gt_float64 (distancia_eucl_float r) 0))
         (is_not_null (dveh_eucfinal r)))
         (gt_int64 (dveh_eucfinal r) 0)) df"

text \<open>Lines 130-135: the temporary columns that the frame has are dropped.\<close>

definition columnas_temporales :: "string list" where
  "columnas_temporales = [''distancia_ruta_float'', ''distancia_eucl_float'']"

definition eliminar_temporales :: "'f viaje DataFrame \<Rightarrow> 'f viaje DataFrame" where
  "eliminar_temporales df =
     (let columnas_a_eliminar = filter (\<lambda>c. c \<in> set (columns df)) columnas_temporales
      in if columnas_a_eliminar \<noteq> [] then drop_columns columnas_a_eliminar df else df)"

text \<open>
  Lines 71-149. The counts are Python integers; \<^verbatim>\<open>pct_retenido\<close> is a float in the
  source and an exact real here. The division raises on a zero divisor, so the
  function returns a sum: \<open>Inl\<close> is the exception that leaves it.
\<close>

definition aplicar_filtros ::
  "(string \<Rightarrow> 'f option) \<Rightarrow> ('f::{zero,linorder}) viaje DataFrame
     \<Rightarrow> excepcion + ('f viaje DataFrame \<times> stats)" where
  "aplicar_filtros parse df0 =
     (let n0 = len df0;
          df1 = filtro_tiempos (columnas_calculadas df0);
          n_despues_tiempo = len df1;
          n_tiempo = n0 - n_despues_tiempo;
          df2 = filtro_paraderos df1;
          n_despues_paraderos = len df2;
          n_paraderos = n_despues_tiempo - n_despues_paraderos;
          df3 = eliminar_temporales
                  (filtro_distancias (convertir_distancias parse (imputar_dveh_eucfinal df2)));
          n_fin = len df3;
          n_dist = n_despues_paraderos - n_fin
      in case (if n0 > 0
               then (case truediv n_fin n0 of Inl e \<Rightarrow> Inl e | Inr q \<Rightarrow> Inr (q * 100))
               else Inr 0) of
           Inl e \<Rightarrow> Inl e
         | Inr pct \<Rightarrow>
             Inr (df3,
                  \<lparr>n_inicial = n0, n_filtrados_tiempo = n_tiempo,
                   n_filtrados_paraderos = n_paraderos, n_filtrados_dist = n_dist,
                   n_final = n_fin, pct_retenido = pct\<rparr>))"

subsection \<open>The stages, row by row\<close>

text \<open>
  What the stages do to one row and when they keep it, in the arithmetic of the code:
  the sums are \<^verbatim>\<open>Int64\<close> sums, which wrap, compared in the signed order, and a float is
  above 0 in the order of the float type.
\<close>

definition nulo_como_cero :: "int64 option \<Rightarrow> int64" where
  "nulo_como_cero v = (case v of None \<Rightarrow> 0 | Some x \<Rightarrow> x)"

definition suma_vehiculo :: "'f viaje \<Rightarrow> int64" where
  "suma_vehiculo r =
     nulo_como_cero (tv1 r) + nulo_como_cero (tv2 r) + nulo_como_cero (tv3 r)
       + nulo_como_cero (tv4 r)"

definition suma_total :: "'f viaje \<Rightarrow> int64" where
  "suma_total r =
     nulo_como_cero (te0 r) + nulo_como_cero (te1 r) + nulo_como_cero (te2 r)
       + nulo_como_cero (te3 r)
       + nulo_como_cero (tv1 r) + nulo_como_cero (tv2 r) + nulo_como_cero (tv3 r)
       + nulo_como_cero (tv4 r)
       + nulo_como_cero (tc1 r) + nulo_como_cero (tc2 r) + nulo_como_cero (tc3 r)"

definition suma_euclidiana :: "'f viaje \<Rightarrow> int64" where
  "suma_euclidiana r =
     nulo_como_cero (dveh_euc1 r) + nulo_como_cero (dveh_euc2 r)
       + nulo_como_cero (dveh_euc3 r) + nulo_como_cero (dveh_euc4 r)"

definition tiempos_positivos_int64 :: "'f viaje \<Rightarrow> bool" where
  "tiempos_positivos_int64 r = (0 <s suma_vehiculo r \<and> 0 <s suma_total r)"

definition con_sumas :: "'f viaje \<Rightarrow> 'f viaje" where
  "con_sumas r =
     r\<lparr>t_vehiculo_total_seg := Some (suma_vehiculo r),
       t_total_calculado_seg := Some (suma_total r),
       d_vehiculo_eucl_total_m := Some (suma_euclidiana r)\<rparr>"

definition paraderos_presentes :: "'f viaje \<Rightarrow> bool" where
  "paraderos_presentes r =
     (paradero_inicio_viaje r \<noteq> None \<and> paradero_fin_viaje r \<noteq> None)"

definition dveh_eucfinal_imputado :: "'f viaje \<Rightarrow> int64 option" where
  "dveh_eucfinal_imputado r =
     (case dveh_eucfinal r of None \<Rightarrow> Some (suma_euclidiana r) | Some d \<Rightarrow> Some d)"

definition cast_mayor_que_cero :: "(string \<Rightarrow> ('f::{zero,linorder}) option) \<Rightarrow> string option \<Rightarrow> bool" where
  "cast_mayor_que_cero parse v =
     (case v of None \<Rightarrow> False
      | Some s \<Rightarrow> (case parse s of None \<Rightarrow> False | Some x \<Rightarrow> 0 < x))"

definition pasa_filtro_distancias :: "(string \<Rightarrow> ('f::{zero,linorder}) option) \<Rightarrow> 'f viaje \<Rightarrow> bool" where
  "pasa_filtro_distancias parse r =
     (cast_mayor_que_cero parse (distancia_ruta r) \<and> cast_mayor_que_cero parse (distancia_eucl r)
      \<and> (case dveh_eucfinal_imputado r of None \<Rightarrow> False | Some d \<Rightarrow> 0 <s d))"

definition con_imputacion :: "'f viaje \<Rightarrow> 'f viaje" where
  "con_imputacion r =
     r\<lparr>dveh_eucfinal := dveh_eucfinal_imputado r,
       distancia_ruta_float := None, distancia_eucl_float := None\<rparr>"

subsection \<open>The stages as the specification words them\<close>

text \<open>
  Reference definitions for the claims about the filter, written from the
  specification. A sum is the sum of the integers that the cells hold, a null cell
  counting as 0; it is an integer, whatever its size. A distance is strictly
  positive when it is a number above 0 (plus infinity included); NaN is not.
\<close>

definition valor_o_cero :: "int64 option \<Rightarrow> int" where
  "valor_o_cero v = (case v of None \<Rightarrow> 0 | Some x \<Rightarrow> sint x)"

definition suma_vehiculo_exacta :: "'f viaje \<Rightarrow> int" where
  "suma_vehiculo_exacta r =
     valor_o_cero (tv1 r) + valor_o_cero (tv2 r) + valor_o_cero (tv3 r) + valor_o_cero (tv4 r)"

definition suma_total_exacta :: "'f viaje \<Rightarrow> int" where
  "suma_total_exacta r =
     valor_o_cero (te0 r) + valor_o_cero (te1 r) + valor_o_cero (te2 r) + valor_o_cero (te3 r)
       + valor_o_cero (tv1 r) + valor_o_cero (tv2 r) + valor_o_cero (tv3 r) + valor_o_cero (tv4 r)
       + valor_o_cero (tc1 r) + valor_o_cero (tc2 r) + valor_o_cero (tc3 r)"

definition suma_euclidiana_exacta :: "'f viaje \<Rightarrow> int" where
  "suma_euclidiana_exacta r =
     valor_o_cero (dveh_euc1 r) + valor_o_cero (dveh_euc2 r)
       + valor_o_cero (dveh_euc3 r) + valor_o_cero (dveh_euc4 r)"

definition cabe_en_int64 :: "int \<Rightarrow> bool" where
  "cabe_en_int64 n = (- (2 ^ 63) \<le> n \<and> n < 2 ^ 63)"

definition tiempos_positivos :: "'f viaje \<Rightarrow> bool" where
  "tiempos_positivos r = (0 < suma_vehiculo_exacta r \<and> 0 < suma_total_exacta r)"

definition sin_tiempo_de_vehiculo :: "'f viaje \<Rightarrow> bool" where
  "sin_tiempo_de_vehiculo r =
     list_all (\<lambda>v. v = None \<or> v = Some 0) [tv1 r, tv2 r, tv3 r, tv4 r]"






subsection \<open>The partition worker\<close>

text \<open>
  \<^verbatim>\<open>procesar_particion\<close>, lines 156-267. Every call that leaves the process is a field
  of the environment and says how the call ends: with a value, or with the exception
  it raises. The worker's result comes with the trace of the calls it made and of the
  structures it bound (\<open>Bind\<close>, an assignment to \<^verbatim>\<open>tabla\<close>, \<^verbatim>\<open>df\<close> or \<^verbatim>\<open>df_filtrado\<close>) and
  released (\<open>Del\<close>, \<open>GcCollect\<close>), in order. The \<^verbatim>\<open>print\<close> calls of verbose mode are
  left out.
\<close>

record particion =
  year :: int
  week :: int
  path :: string

datatype resultado =
    Success int int stats
  | Skipped int int
  | Error int int string

datatype 'a salida = Return 'a | Raise excepcion

datatype evento =
    GfsExists string
  | OpenInputFile string
  | ReadTable string
  | FromArrow
  | Makedirs string
  | OpenWb string
  | WriteParquet string
  | Bind string
  | Del string
  | GcCollect

record ('t, 'f) entorno =
  credenciales :: "excepcion option"
  gfs_exists :: "string \<Rightarrow> excepcion + bool"
  open_input_file :: "string \<Rightarrow> excepcion option"
  read_table :: "string \<Rightarrow> excepcion + 't"
  from_arrow :: "'t \<Rightarrow> excepcion + 'f viaje DataFrame"
  parse_float :: "string \<Rightarrow> 'f option"
  column_not_found :: "string \<Rightarrow> excepcion"
  gfs_makedirs :: "string \<Rightarrow> excepcion option"
  gfs_open_wb :: "string \<Rightarrow> excepcion option"
  write_parquet :: "string \<Rightarrow> 'f viaje DataFrame \<Rightarrow> excepcion option"
  format_exc :: "excepcion \<Rightarrow> string"

text \<open>Python's \<^verbatim>\<open>str\<close> of an integer, as the f-strings of the paths use it.\<close>

fun str_nat :: "nat \<Rightarrow> string" where
  "str_nat n =
     (if n < 10 then [char_of (48 + n)]
      else str_nat (n div 10) @ [char_of (48 + n mod 10)])"

declare str_nat.simps [simp del]

definition str_int :: "int \<Rightarrow> string" where
  "str_int i = (if i < 0 then CHR ''-'' # str_nat (nat (- i)) else str_nat (nat i))"

definition OUTPUT_PATH :: string where
  "OUTPUT_PATH = ''tesis-vonetto-datalake/lake/silver/viajes_limpios''"

definition output_partition :: "particion \<Rightarrow> string" where
  "output_partition p =
     OUTPUT_PATH @ ''/iso_year='' @ str_int (year p) @ ''/iso_week='' @ str_int (week p)"

definition output_file :: "particion \<Rightarrow> string" where
  "output_file p = output_partition p @ ''/data-0.parquet''"

text \<open>
  Lines 249-267, the handler of the \<^verbatim>\<open>try\<close> block: it deletes the structures that are
  not \<^verbatim>\<open>None\<close> (\<open>retenidas\<close>, in the order \<^verbatim>\<open>tabla\<close>, \<^verbatim>\<open>df\<close>, \<^verbatim>\<open>df_filtrado\<close>), collects,
  and returns the error with the formatted traceback.
\<close>

definition manejar_excepcion ::
  "('t, 'f) entorno \<Rightarrow> particion \<Rightarrow> string list \<Rightarrow> excepcion \<Rightarrow> evento list
     \<Rightarrow> resultado salida \<times> evento list" where
  "manejar_excepcion env p retenidas e tr =
     (Return (Error (year p) (week p) (str e @ [CHR 0x0A] @ format_exc env e)),
      tr @ map Del retenidas @ [GcCollect])"

text \<open>
  Line 215, the call of \<^verbatim>\<open>aplicar_filtros\<close> on the frame that was read. That frame
  need not have the columns of the trip record: \<^verbatim>\<open>pl.col\<close> raises Polars'
  \<^verbatim>\<open>ColumnNotFoundError\<close> (\<open>column_not_found\<close> of the missing name) on the first column
  that the filter reads and the frame lacks. On a frame that has them the call is
  \<open>aplicar_filtros\<close>.
\<close>

definition columnas_leidas :: "string list" where
  "columnas_leidas =
     [''tv1'', ''tv2'', ''tv3'', ''tv4'', ''te0'', ''tc1'', ''te1'', ''tc2'', ''te2'', ''tc3'', ''te3'',
      ''dveh_euc1'', ''dveh_euc2'', ''dveh_euc3'', ''dveh_euc4'',
      ''paradero_inicio_viaje'', ''paradero_fin_viaje'', ''dveh_eucfinal'',
      ''distancia_ruta'', ''distancia_eucl'']"

definition llamar_aplicar_filtros ::
  "('t, 'f::{zero,linorder}) entorno \<Rightarrow> 'f viaje DataFrame
     \<Rightarrow> excepcion + ('f viaje DataFrame \<times> stats)" where
  "llamar_aplicar_filtros env df =
     (case filter (\<lambda>c. c \<notin> set (columns df)) columnas_leidas of
        c # cs \<Rightarrow> Inl (column_not_found env c)
      | [] \<Rightarrow> aplicar_filtros (parse_float env) df)"

text \<open>Lines 193-247, the body of the \<^verbatim>\<open>try\<close> block.\<close>

definition leer_filtrar_guardar ::
  "('t, 'f::{zero,linorder}) entorno \<Rightarrow> particion \<Rightarrow> evento list
     \<Rightarrow> resultado salida \<times> evento list" where
  "leer_filtrar_guardar env p tr0 =
     (let input_file = path p;
          tr1 = tr0 @ [OpenInputFile input_file]
      in case open_input_file env input_file of
           Some e \<Rightarrow> manejar_excepcion env p [] e tr1
         | None \<Rightarrow>
      (let tr2 = tr1 @ [ReadTable input_file]
       in case read_table env input_file of
            Inl e \<Rightarrow> manejar_excepcion env p [] e tr2
          | Inr tabla \<Rightarrow>
      (let tr3 = tr2 @ [Bind ''tabla'', FromArrow]
       in case from_arrow env tabla of
            Inl e \<Rightarrow> manejar_excepcion env p [''tabla''] e tr3
          | Inr df \<Rightarrow>
      (let tr4 = tr3 @ [Bind ''df'', Del ''tabla'', GcCollect]
       in case llamar_aplicar_filtros env df of
            Inl e \<Rightarrow> manejar_excepcion env p [''df''] e tr4
          | Inr (df_filtrado, st) \<Rightarrow>
      (let tr5 = tr4 @ [Bind ''df_filtrado'', Del ''df'', GcCollect, Makedirs (output_partition p)]
       in case gfs_makedirs env (output_partition p) of
            Some e \<Rightarrow> manejar_excepcion env p [''df_filtrado''] e tr5
          | None \<Rightarrow>
      (let tr6 = tr5 @ [OpenWb (output_file p)]
       in case gfs_open_wb env (output_file p) of
            Some e \<Rightarrow> manejar_excepcion env p [''df_filtrado''] e tr6
          | None \<Rightarrow>
      (let tr7 = tr6 @ [WriteParquet (output_file p)]
       in case write_parquet env (output_file p) df_filtrado of
            Some e \<Rightarrow> manejar_excepcion env p [''df_filtrado''] e tr7
          | None \<Rightarrow>
              (Return (Success (year p) (week p) st),
               tr7 @ [Del ''df_filtrado'', GcCollect]))))))))"

text \<open>
  Lines 161-191. The credentials are acquired inside a \<^verbatim>\<open>try\<close> of their own; the
  existence probe \<^verbatim>\<open>gfs.exists(output_file)\<close> stands between the two \<^verbatim>\<open>try\<close> blocks.
  The message of the first handler is \<^verbatim>\<open>Error de autenticacion GCS: \<close> (with an
  accented o, two bytes in UTF-8) followed by \<^verbatim>\<open>str(e)\<close>.
\<close>

definition mensaje_autenticacion :: "excepcion \<Rightarrow> string" where
  "mensaje_autenticacion e =
     ''Error de autenticaci'' @ [CHR 0xC3, CHR 0xB3] @ ''n GCS: '' @ str e"

definition procesar_particion ::
  "('t, 'f::{zero,linorder}) entorno \<Rightarrow> particion \<Rightarrow> bool
     \<Rightarrow> resultado salida \<times> evento list" where
  "procesar_particion env p force_reprocess =
     (case credenciales env of
        Some e \<Rightarrow> (Return (Error (year p) (week p) (mensaje_autenticacion e)), [])
      | None \<Rightarrow>
          (let tr0 = [GfsExists (output_file p)]
           in case gfs_exists env (output_file p) of
                Inl e \<Rightarrow> (Raise e, tr0)
              | Inr existe \<Rightarrow>
                  if existe \<and> \<not> force_reprocess
                  then (Return (Skipped (year p) (week p)), tr0)
                  else leer_filtrar_guardar env p tr0))"

definition lee_entrada :: "evento \<Rightarrow> bool" where
  "lee_entrada ev =
     (case ev of OpenInputFile f \<Rightarrow> True | ReadTable f \<Rightarrow> True | FromArrow \<Rightarrow> True
      | _ \<Rightarrow> False)"

subsection \<open>The orchestrator\<close>

text \<open>
  \<^verbatim>\<open>main\<close>, lines 274-459. The connection (lines 292-298) and the discovery of the
  partitions (lines 302-325) are outcomes of the environment; so is what
  \<^verbatim>\<open>as_completed\<close> yields: for each future, in completion order, what
  \<^verbatim>\<open>future.result()\<close> does: it returns the worker's result or raises (a worker
  process that died, or an exception that left the worker). The two branches on
  \<^verbatim>\<open>VERBOSE\<close> update the totals alike and differ in what they print.
\<close>

record stats_globales = totales +
  particiones_procesadas :: int
  particiones_skipped :: int
  particiones_fallidas :: int

definition stats_globales_inicial :: stats_globales where
  "stats_globales_inicial =
     \<lparr>n_inicial = 0, n_filtrados_tiempo = 0, n_filtrados_paraderos = 0,
      n_filtrados_dist = 0, n_final = 0,
      particiones_procesadas = 0, particiones_skipped = 0, particiones_fallidas = 0\<rparr>"

text \<open>Lines 364-392 (and 395-421): one turn of the loop over the completed futures.\<close>

fun acumular :: "stats_globales \<Rightarrow> resultado salida \<Rightarrow> stats_globales" where
  "acumular g (Return (Success y w st)) =
     g\<lparr>particiones_procesadas := particiones_procesadas g + 1,
       n_inicial := n_inicial g + n_inicial st,
       n_filtrados_tiempo := n_filtrados_tiempo g + n_filtrados_tiempo st,
       n_filtrados_paraderos := n_filtrados_paraderos g + n_filtrados_paraderos st,
       n_filtrados_dist := n_filtrados_dist g + n_filtrados_dist st,
       n_final := n_final g + n_final st\<rparr>"
| "acumular g (Return (Skipped y w)) =
     g\<lparr>particiones_skipped := particiones_skipped g + 1\<rparr>"
| "acumular g (Return (Error y w m)) =
     g\<lparr>particiones_fallidas := particiones_fallidas g + 1\<rparr>"
| "acumular g (Raise e) =
     g\<lparr>particiones_fallidas := particiones_fallidas g + 1\<rparr>"

definition agregar :: "resultado salida list \<Rightarrow> stats_globales" where
  "agregar completados = fold (\<lambda>f g. acumular g f) completados stats_globales_inicial"

record entorno_main =
  autenticacion :: "excepcion option"
  listado :: "excepcion + particion list"
  completados :: "resultado salida list"

definition main :: "entorno_main \<Rightarrow> int" where
  "main env =
     (case autenticacion env of
        Some e \<Rightarrow> 1
      | None \<Rightarrow>
          (case listado env of
             Inl e \<Rightarrow> 1
           | Inr particiones \<Rightarrow>
               if particiones = [] then 0
               else (let g = agregar (completados env)
                     in if particiones_fallidas g = 0 then 0 else 1)))"

text \<open>Reference definitions for the claims about the totals and the exit status.\<close>

definition termina_en_error :: "resultado salida \<Rightarrow> bool" where
  "termina_en_error f =
     (case f of Return (Error y w m) \<Rightarrow> True | Raise e \<Rightarrow> True | _ \<Rightarrow> False)"

fun stats_de_exitos :: "resultado salida list \<Rightarrow> stats list" where
  "stats_de_exitos [] = []"
| "stats_de_exitos (Return (Success y w st) # fs) = st # stats_de_exitos fs"
| "stats_de_exitos (f # fs) = stats_de_exitos fs"

definition es_skipped :: "resultado salida \<Rightarrow> bool" where
  "es_skipped f = (case f of Return (Skipped y w) \<Rightarrow> True | _ \<Rightarrow> False)"

text \<open>
  Reference definition for the claim about failures: the first exception that a call
  of steps 4 to 6 (read, filter, write) raises, if any.
\<close>

definition primera_excepcion :: "('t, 'f::{zero,linorder}) entorno \<Rightarrow> particion \<Rightarrow> excepcion option" where
  "primera_excepcion env p =
     (case open_input_file env (path p) of Some e \<Rightarrow> Some e | None \<Rightarrow>
     (case read_table env (path p) of Inl e \<Rightarrow> Some e | Inr tabla \<Rightarrow>
     (case from_arrow env tabla of Inl e \<Rightarrow> Some e | Inr df \<Rightarrow>
     (case llamar_aplicar_filtros env df of Inl e \<Rightarrow> Some e | Inr (df_filtrado, st) \<Rightarrow>
     (case gfs_makedirs env (output_partition p) of Some e \<Rightarrow> Some e | None \<Rightarrow>
     (case gfs_open_wb env (output_file p) of Some e \<Rightarrow> Some e | None \<Rightarrow>
        write_parquet env (output_file p) df_filtrado))))))"

text \<open>
  Reference definitions for the release of memory, read off a trace: the structures
  still bound after it (a \<open>Bind\<close> binds, a later \<open>Del\<close> of the same name unbinds),
  and whether a deletion is still waiting for a collection (a \<open>Del\<close> with no
  \<open>GcCollect\<close> after it).
\<close>

fun paso_retencion :: "evento \<Rightarrow> string list \<Rightarrow> string list" where
  "paso_retencion (Bind x) h = x # removeAll x h"
| "paso_retencion (Del x) h = removeAll x h"
| "paso_retencion ev h = h"

definition retenidas_tras :: "evento list \<Rightarrow> string list" where
  "retenidas_tras tr = fold paso_retencion tr []"

fun paso_recoleccion :: "evento \<Rightarrow> bool \<Rightarrow> bool" where
  "paso_recoleccion (Del x) b = True"
| "paso_recoleccion GcCollect b = False"
| "paso_recoleccion ev b = b"

definition recoleccion_pendiente :: "evento list \<Rightarrow> bool" where
  "recoleccion_pendiente tr = fold paso_recoleccion tr False"

definition todo_liberado :: "evento list \<Rightarrow> bool" where
  "todo_liberado tr = (retenidas_tras tr = [] \<and> \<not> recoleccion_pendiente tr)"

subsection \<open>A small partition, for evaluation\<close>

text \<open>
  \<open>parse_ejemplo\<close> stands for the library's string-to-float parser on the three
  strings of the example; \<open>viaje_a\<close> is the record of the specification's test
  (\<^verbatim>\<open>tv1=100, tv2=null, tv3=50, tv4=0, te0=10\<close>, leg distances summing to 120).
\<close>

definition parse_ejemplo :: "string \<Rightarrow> real option" where
  "parse_ejemplo s =
     (if s = ''1500.5'' then Some 1500.5
      else if s = ''1200'' then Some 1200
      else if s = ''-3'' then Some (- 3)
      else None)"

definition viaje_nulo :: "real viaje" where
  "viaje_nulo =
     \<lparr>tv1 = None, tv2 = None, tv3 = None, tv4 = None,
      tc1 = None, tc2 = None, tc3 = None,
      te0 = None, te1 = None, te2 = None, te3 = None,
      dveh_euc1 = None, dveh_euc2 = None, dveh_euc3 = None, dveh_euc4 = None,
      dveh_eucfinal = None, distancia_ruta = None, distancia_eucl = None,
      paradero_inicio_viaje = None, paradero_fin_viaje = None,
      t_vehiculo_total_seg = None, t_total_calculado_seg = None,
      d_vehiculo_eucl_total_m = None,
      distancia_ruta_float = None, distancia_eucl_float = None\<rparr>"

definition viaje_a :: "real viaje" where
  "viaje_a =
     viaje_nulo\<lparr>tv1 := Some 100, tv3 := Some 50, tv4 := Some 0, te0 := Some 10,
       dveh_euc1 := Some 70, dveh_euc2 := Some 50,
       distancia_ruta := Some ''1500.5'', distancia_eucl := Some ''1200'',
       paradero_inicio_viaje := Some ''PA433'', paradero_fin_viaje := Some ''PB12''\<rparr>"

definition viaje_sin_paradero :: "real viaje" where
  "viaje_sin_paradero = viaje_a\<lparr>paradero_fin_viaje := None\<rparr>"

definition viaje_abc :: "real viaje" where
  "viaje_abc = viaje_a\<lparr>distancia_ruta := Some ''abc'', dveh_eucfinal := Some 900\<rparr>"

definition columnas_entrada :: "string list" where
  "columnas_entrada =
     [''tv1'', ''tv2'', ''tv3'', ''tv4'', ''tc1'', ''tc2'', ''tc3'',
      ''te0'', ''te1'', ''te2'', ''te3'',
      ''dveh_euc1'', ''dveh_euc2'', ''dveh_euc3'', ''dveh_euc4'', ''dveh_eucfinal'',
      ''distancia_ruta'', ''distancia_eucl'',
      ''paradero_inicio_viaje'', ''paradero_fin_viaje'']"

definition df_ejemplo :: "real viaje DataFrame" where
  "df_ejemplo =
     \<lparr>columns = columnas_entrada,
      rows = [viaje_a, viaje_nulo, viaje_sin_paradero, viaje_abc]\<rparr>"

definition df_vacio :: "real viaje DataFrame" where
  "df_vacio = \<lparr>columns = columnas_entrada, rows = []\<rparr>"

definition viaje_a_limpio :: "real viaje" where
  "viaje_a_limpio =
     viaje_a\<lparr>dveh_eucfinal := Some 120, t_vehiculo_total_seg := Some 150,
       t_total_calculado_seg := Some 160, d_vehiculo_eucl_total_m := Some 120\<rparr>"

definition df_ejemplo_limpio :: "real viaje DataFrame" where
  "df_ejemplo_limpio =
     \<lparr>columns = columnas_entrada
         @ [''t_vehiculo_total_seg'', ''t_total_calculado_seg'', ''d_vehiculo_eucl_total_m''],
      rows = [viaje_a_limpio]\<rparr>"

definition stats_ejemplo :: stats where
  "stats_ejemplo =
     \<lparr>n_inicial = 4, n_filtrados_tiempo = 1, n_filtrados_paraderos = 1,
      n_filtrados_dist = 1, n_final = 1, pct_retenido = 25\<rparr>"

text \<open>A partition descriptor and environments for it.\<close>

definition particion_ejemplo :: particion where
  "particion_ejemplo =
     \<lparr>year = 2024, week = 7,
      path = ''tesis-vonetto-datalake/lake/silver/viajes_enriquecidos/iso_year=2024/iso_week=7/data-0.parquet''\<rparr>"

definition entorno_ejemplo :: "(real viaje DataFrame, real) entorno" where
  "entorno_ejemplo =
     \<lparr>credenciales = None,
      gfs_exists = (\<lambda>f. Inr False),
      open_input_file = (\<lambda>f. None),
      read_table = (\<lambda>f. Inr df_ejemplo),
      from_arrow = (\<lambda>t. Inr t),
      parse_float = parse_ejemplo,
      column_not_found = (\<lambda>c. Exception (''unable to find column '' @ c)),
      gfs_makedirs = (\<lambda>d. None),
      gfs_open_wb = (\<lambda>f. None),
      write_parquet = (\<lambda>f d. None),
      format_exc = (\<lambda>e. ''Traceback (most recent call last): '' @ str e)\<rparr>"

definition entorno_ya_procesado :: "(real viaje DataFrame, real) entorno" where
  "entorno_ya_procesado = entorno_ejemplo\<lparr>gfs_exists := (\<lambda>f. Inr True)\<rparr>"

definition entorno_sin_credenciales :: "(real viaje DataFrame, real) entorno" where
  "entorno_sin_credenciales =
     entorno_ya_procesado\<lparr>credenciales := Some (Exception ''No ADC'')\<rparr>"

definition entorno_escritura_falla :: "(real viaje DataFrame, real) entorno" where
  "entorno_escritura_falla =
     entorno_ejemplo\<lparr>write_parquet := (\<lambda>f d. Some (Exception ''quota exceeded''))\<rparr>"

definition entorno_sin_columna :: "(real viaje DataFrame, real) entorno" where
  "entorno_sin_columna =
     entorno_ejemplo\<lparr>read_table := (\<lambda>f. Inr (df_ejemplo\<lparr>columns := tl columnas_entrada\<rparr>))\<rparr>"

text \<open>
  A record whose vehicle times are the least \<^verbatim>\<open>Int64\<close> and -1, and a partition with
  \<^verbatim>\<open>Float64\<close> cells: one of its records has the string \<^verbatim>\<open>NaN\<close> for its route distance,
  which \<open>parse_polars_ejemplo\<close> parses to NaN.
\<close>

definition viaje_desborde :: "real viaje" where
  "viaje_desborde =
     viaje_a\<lparr>tv1 := Some (- 9223372036854775808), tv2 := Some (- 1), tv3 := None,
       tv4 := None, te0 := None\<rparr>"

definition df_desborde :: "real viaje DataFrame" where
  "df_desborde = \<lparr>columns = columnas_entrada, rows = [viaje_desborde]\<rparr>"

definition df_desborde_limpio :: "real viaje DataFrame" where
  "df_desborde_limpio =
     \<lparr>columns = columnas_entrada
         @ [''t_vehiculo_total_seg'', ''t_total_calculado_seg'', ''d_vehiculo_eucl_total_m''],
      rows = [viaje_desborde\<lparr>dveh_eucfinal := Some 120,
                t_vehiculo_total_seg := Some 9223372036854775807,
                t_total_calculado_seg := Some 9223372036854775807,
                d_vehiculo_eucl_total_m := Some 120\<rparr>]\<rparr>"

definition stats_desborde :: stats where
  "stats_desborde =
     \<lparr>n_inicial = 1, n_filtrados_tiempo = 0, n_filtrados_paraderos = 0,
      n_filtrados_dist = 0, n_final = 1, pct_retenido = 100\<rparr>"









definition completados_ejemplo :: "resultado salida list" where
  "completados_ejemplo =
     [Return (Success 2024 7 stats_ejemplo),
      Return (Skipped 2024 8),
      Return (Success 2024 9 (stats_ejemplo\<lparr>n_inicial := 10, n_filtrados_dist := 7,
                                              pct_retenido := 10\<rparr>))]"

definition entorno_main_ejemplo :: entorno_main where
  "entorno_main_ejemplo =
     \<lparr>autenticacion = None,
      listado = Inr [particion_ejemplo, particion_ejemplo\<lparr>week := 8\<rparr>,
                     particion_ejemplo\<lparr>week := 9\<rparr>],
      completados = completados_ejemplo\<rparr>"

section \<open>Properties\<close>

subsection \<open>Frames, expressions and stages\<close>

lemma rows_with_columns: "rows (with_columns ns f df) = map f (rows df)"
  by (simp add: with_columns_def)

lemma columns_with_columns:
  "columns (with_columns ns f df) = columns df @ filter (\<lambda>n. n \<notin> set (columns df)) ns"
  by (simp add: with_columns_def)

lemma rows_filter_df: "rows (filter_df p df) = filter (\<lambda>r. p r = Some True) (rows df)"
  by (simp add: filter_df_def)

lemma columns_filter_df: "columns (filter_df p df) = columns df"
  by (simp add: filter_df_def)

lemma len_nonneg: "0 \<le> len df"
  by (simp add: len_def)

lemma len_with_columns: "len (with_columns ns f df) = len df"
  by (simp add: len_def rows_with_columns)

lemma len_filter_df_le: "len (filter_df p df) \<le> len df"
  by (simp add: len_def rows_filter_df)

lemma rows_drop_columns: "rows (drop_columns cs df) = map (fold quitar_columna cs) (rows df)"
  by (simp add: drop_columns_def)

lemma len_eliminar_temporales: "len (eliminar_temporales df) = len df"
  by (simp add: eliminar_temporales_def Let_def len_def rows_drop_columns)

lemma aplicar_filtros_Inr:
  assumes "df1 = filtro_tiempos (columnas_calculadas df)"
    and "df2 = filtro_paraderos df1"
    and "df3 = eliminar_temporales
                 (filtro_distancias (convertir_distancias parse (imputar_dveh_eucfinal df2)))"
  shows "aplicar_filtros parse df =
     Inr (df3, \<lparr>n_inicial = len df, n_filtrados_tiempo = len df - len df1,
                n_filtrados_paraderos = len df1 - len df2,
                n_filtrados_dist = len df2 - len df3,
                n_final = len df3,
                pct_retenido = (if 0 < len df then real_of_int (len df3) / real_of_int (len df) * 100 else 0)\<rparr>)"
  using assms by (simp add: aplicar_filtros_def Let_def truediv_def)

lemma len_filtro_tiempos_le: "len (filtro_tiempos df) \<le> len df"
  unfolding filtro_tiempos_def by (rule len_filter_df_le)

lemma len_filtro_paraderos_le: "len (filtro_paraderos df) \<le> len df"
  unfolding filtro_paraderos_def by (rule len_filter_df_le)

lemma len_filtro_distancias_le: "len (filtro_distancias df) \<le> len df"
  unfolding filtro_distancias_def by (rule len_filter_df_le)

lemma len_columnas_calculadas: "len (columnas_calculadas df) = len df"
  unfolding columnas_calculadas_def by (rule len_with_columns)

lemma len_imputar: "len (imputar_dveh_eucfinal df) = len df"
  unfolding imputar_dveh_eucfinal_def by (rule len_with_columns)

lemma len_convertir: "len (convertir_distancias parse df) = len df"
  unfolding convertir_distancias_def by (rule len_with_columns)

lemma len_etapa_tiempos_le: "len (filtro_tiempos (columnas_calculadas df)) \<le> len df"
  using len_filtro_tiempos_le [of "columnas_calculadas df"]
  by (simp add: len_columnas_calculadas)

lemma len_etapa_distancias_le:
  "len (eliminar_temporales (filtro_distancias
      (convertir_distancias parse (imputar_dveh_eucfinal df)))) \<le> len df"
  using len_filtro_distancias_le [of "convertir_distancias parse (imputar_dveh_eucfinal df)"]
  by (simp add: len_eliminar_temporales len_convertir len_imputar)

lemma expr_and_True: "expr_and a b = Some True \<longleftrightarrow> a = Some True \<and> b = Some True"
  by (induction a b rule: expr_and.induct) auto

lemma gt_int64_True:
  "gt_int64 a k = Some True \<longleftrightarrow> (case a of None \<Rightarrow> False | Some x \<Rightarrow> k <s x)"
  by (simp add: gt_int64_def split: option.splits)

lemma gt_float64_True:
  "gt_float64 a k = Some True \<longleftrightarrow> (case a of None \<Rightarrow> False | Some x \<Rightarrow> k < x)"
  by (simp add: gt_float64_def split: option.splits)

lemma is_not_null_True: "is_not_null v = Some True \<longleftrightarrow> v \<noteq> None"
  by (simp add: is_not_null_def split: option.splits)

lemma fill_null_zero: "fill_null v 0 = Some (nulo_como_cero v)"
  by (simp add: fill_null_def nulo_como_cero_def split: option.splits)

lemma expr_add_Some: "expr_add (Some x) (Some y) = Some (x + y)"
  by (simp add: expr_add_def)

lemma rows_columnas_calculadas: "rows (columnas_calculadas df) = map con_sumas (rows df)"
  by (simp add: columnas_calculadas_def rows_with_columns con_sumas_def fill_null_zero
      expr_add_Some suma_vehiculo_def suma_total_def suma_euclidiana_def ac_simps)

lemma tiempos_con_sumas:
  "expr_and (gt_int64 (t_vehiculo_total_seg (con_sumas r)) 0)
            (gt_int64 (t_total_calculado_seg (con_sumas r)) 0) = Some True
   \<longleftrightarrow> tiempos_positivos_int64 r"
  by (simp add: expr_and_True gt_int64_True con_sumas_def tiempos_positivos_int64_def)

lemma rows_etapa_tiempos:
  "rows (filtro_tiempos (columnas_calculadas df)) = map con_sumas (filter tiempos_positivos_int64 (rows df))"
  by (simp add: filtro_tiempos_def rows_filter_df rows_columnas_calculadas filter_map o_def
      tiempos_con_sumas)

lemma sin_tiempo_suma_cero: "sin_tiempo_de_vehiculo r \<Longrightarrow> suma_vehiculo r = 0"
  by (auto simp: sin_tiempo_de_vehiculo_def suma_vehiculo_def nulo_como_cero_def)

lemma sin_tiempo_no_positivo: "sin_tiempo_de_vehiculo r \<Longrightarrow> \<not> tiempos_positivos_int64 r"
  by (simp add: sin_tiempo_suma_cero tiempos_positivos_int64_def)

lemma paraderos_True:
  "expr_and (is_not_null (paradero_inicio_viaje r)) (is_not_null (paradero_fin_viaje r)) = Some True
   \<longleftrightarrow> paraderos_presentes r"
  by (simp add: expr_and_True is_not_null_True paraderos_presentes_def)

lemma rows_filtro_paraderos:
  "rows (filtro_paraderos df) = filter paraderos_presentes (rows df)"
  by (simp add: filtro_paraderos_def rows_filter_df paraderos_True)

lemma when_is_null:
  "when_then_otherwise (is_null v) a v = (case v of None \<Rightarrow> a | Some d \<Rightarrow> Some d)"
  by (simp add: when_then_otherwise_def is_null_def split: option.splits)

lemma cast_mayor_que_cero_True:
  "expr_and (is_not_null (cast_float64 parse v)) (gt_float64 (cast_float64 parse v) 0) = Some True
   \<longleftrightarrow> cast_mayor_que_cero parse v"
  by (simp add: expr_and_True is_not_null_True gt_float64_True cast_float64_def
      cast_mayor_que_cero_def split: option.splits)

lemma int64_positivo:
  "expr_and (is_not_null a) (gt_int64 a 0) = Some True
   \<longleftrightarrow> (case a of None \<Rightarrow> False | Some d \<Rightarrow> 0 <s d)"
  by (simp add: expr_and_True is_not_null_True gt_int64_True split: option.splits)

lemma columns_convertir:
  "''distancia_ruta_float'' \<in> set (columns (convertir_distancias parse df))"
  "''distancia_eucl_float'' \<in> set (columns (convertir_distancias parse df))"
  by (auto simp: convertir_distancias_def columns_with_columns)

lemma columns_filtro_distancias: "columns (filtro_distancias df) = columns df"
  by (simp add: filtro_distancias_def columns_filter_df)

lemma eliminar_temporales_convertir:
  "eliminar_temporales (filtro_distancias (convertir_distancias parse df)) =
   drop_columns columnas_temporales (filtro_distancias (convertir_distancias parse df))"
  by (simp add: eliminar_temporales_def Let_def columns_filtro_distancias columns_convertir
      columnas_temporales_def)

lemma distancias_True:
  assumes "d_vehiculo_eucl_total_m r = Some (suma_euclidiana r)"
  shows "expr_and (expr_and (expr_and (expr_and (expr_and
         (is_not_null (cast_float64 parse (distancia_ruta r)))
         (gt_float64 (cast_float64 parse (distancia_ruta r)) 0))
         (is_not_null (cast_float64 parse (distancia_eucl r))))
         (gt_float64 (cast_float64 parse (distancia_eucl r)) 0))
         (is_not_null (when_then_otherwise (is_null (dveh_eucfinal r))
                   (d_vehiculo_eucl_total_m r) (dveh_eucfinal r))))
         (gt_int64 (when_then_otherwise (is_null (dveh_eucfinal r))
                   (d_vehiculo_eucl_total_m r) (dveh_eucfinal r)) 0) = Some True
   \<longleftrightarrow> pasa_filtro_distancias parse r"
proof -
  have imp: "when_then_otherwise (is_null (dveh_eucfinal r))
                   (d_vehiculo_eucl_total_m r) (dveh_eucfinal r) = dveh_eucfinal_imputado r"
    using assms by (simp add: when_is_null dveh_eucfinal_imputado_def)
  show ?thesis
    unfolding imp expr_and_True pasa_filtro_distancias_def
    using cast_mayor_que_cero_True [of parse "distancia_ruta r"] cast_mayor_que_cero_True [of parse "distancia_eucl r"]
      int64_positivo [of "dveh_eucfinal_imputado r"]
    by (simp add: expr_and_True)
qed

lemma fila_etapa_distancias:
  assumes "d_vehiculo_eucl_total_m r = Some (suma_euclidiana r)"
  shows "fold quitar_columna columnas_temporales
     (r\<lparr>dveh_eucfinal := when_then_otherwise (is_null (dveh_eucfinal r))
                   (d_vehiculo_eucl_total_m r) (dveh_eucfinal r),
        distancia_ruta_float := a, distancia_eucl_float := b\<rparr>) = con_imputacion r"
  using assms
  by (simp add: columnas_temporales_def quitar_columna_def con_imputacion_def when_is_null
      dveh_eucfinal_imputado_def)

lemma rows_etapa_distancias:
  assumes "\<forall>r \<in> set (rows df). d_vehiculo_eucl_total_m r = Some (suma_euclidiana r)"
  shows "rows (eliminar_temporales (filtro_distancias
            (convertir_distancias parse (imputar_dveh_eucfinal df)))) =
         map con_imputacion (filter (pasa_filtro_distancias parse) (rows df))"
proof -
  let ?imp = "\<lambda>r. r\<lparr>dveh_eucfinal := when_then_otherwise (is_null (dveh_eucfinal r))
                   (d_vehiculo_eucl_total_m r) (dveh_eucfinal r)\<rparr>"
  let ?conv = "\<lambda>r. r\<lparr>distancia_ruta_float := cast_float64 parse (distancia_ruta r),
               distancia_eucl_float := cast_float64 parse (distancia_eucl r)\<rparr>"
  let ?p = "\<lambda>r. expr_and (expr_and (expr_and (expr_and (expr_and
         (is_not_null (distancia_ruta_float r))
         (gt_float64 (distancia_ruta_float r) 0))
         (is_not_null (distancia_eucl_float r)))
         (gt_float64 (distancia_eucl_float r) 0))
         (is_not_null (dveh_eucfinal r)))
         (gt_int64 (dveh_eucfinal r) 0) = Some True"
  have rows_eq: "rows (eliminar_temporales (filtro_distancias
            (convertir_distancias parse (imputar_dveh_eucfinal df)))) =
      map (fold quitar_columna columnas_temporales)
        (filter ?p (map ?conv (map ?imp (rows df))))"
    unfolding eliminar_temporales_convertir rows_drop_columns
    by (simp add: filtro_distancias_def rows_filter_df convertir_distancias_def
        imputar_dveh_eucfinal_def rows_with_columns)
  have keep: "?p (?conv (?imp r)) \<longleftrightarrow> pasa_filtro_distancias parse r" if "r \<in> set (rows df)" for r
    using distancias_True [of r parse] assms that by simp
  have fila: "fold quitar_columna columnas_temporales (?conv (?imp r)) = con_imputacion r"
    if "r \<in> set (rows df)" for r
    using fila_etapa_distancias [of r] assms that by simp
  have "filter ?p (map ?conv (map ?imp (rows df)))
      = map (\<lambda>r. ?conv (?imp r)) (filter (pasa_filtro_distancias parse) (rows df))"
    unfolding map_map filter_map o_def
    using keep by (intro arg_cong [where f = "map _"] filter_cong) auto
  then show ?thesis
    unfolding rows_eq using fila by (simp add: o_def)
qed

lemma con_sumas_campos [simp]:
  "suma_euclidiana (con_sumas r) = suma_euclidiana r"
  "suma_vehiculo (con_sumas r) = suma_vehiculo r"
  "suma_total (con_sumas r) = suma_total r"
  "d_vehiculo_eucl_total_m (con_sumas r) = Some (suma_euclidiana r)"
  "t_vehiculo_total_seg (con_sumas r) = Some (suma_vehiculo r)"
  "t_total_calculado_seg (con_sumas r) = Some (suma_total r)"
  by (simp_all add: con_sumas_def suma_euclidiana_def suma_vehiculo_def suma_total_def)

lemma etapa_paraderos_sumas:
  "\<forall>r \<in> set (rows (filtro_paraderos (filtro_tiempos (columnas_calculadas df)))).
     d_vehiculo_eucl_total_m r = Some (suma_euclidiana r)
     \<and> t_vehiculo_total_seg r = Some (suma_vehiculo r)
     \<and> t_total_calculado_seg r = Some (suma_total r)"
  by (auto simp: rows_filtro_paraderos rows_etapa_tiempos)

lemma con_imputacion_campos [simp]:
  "distancia_ruta (con_imputacion r) = distancia_ruta r"
  "distancia_eucl (con_imputacion r) = distancia_eucl r"
  "dveh_eucfinal (con_imputacion r) = dveh_eucfinal_imputado r"
  "d_vehiculo_eucl_total_m (con_imputacion r) = d_vehiculo_eucl_total_m r"
  "t_vehiculo_total_seg (con_imputacion r) = t_vehiculo_total_seg r"
  "t_total_calculado_seg (con_imputacion r) = t_total_calculado_seg r"
  "suma_euclidiana (con_imputacion r) = suma_euclidiana r"
  "suma_vehiculo (con_imputacion r) = suma_vehiculo r"
  "suma_total (con_imputacion r) = suma_total r"
  by (simp_all add: con_imputacion_def suma_euclidiana_def suma_vehiculo_def suma_total_def)

lemma leer_filtrar_guardar_error:
  assumes "primera_excepcion env p = Some e"
  shows "fst (leer_filtrar_guardar env p tr0)
           = Return (Error (year p) (week p) (str e @ [CHR 0x0A] @ format_exc env e))"
  using assms
  by (auto simp: leer_filtrar_guardar_def primera_excepcion_def manejar_excepcion_def Let_def
      split: option.splits sum.splits prod.splits)

lemma leer_filtrar_guardar_traza:
  "\<exists>tr. snd (leer_filtrar_guardar env p tr0) = tr0 @ tr \<and> todo_liberado tr
     \<and> last tr = GcCollect"
proof -
  have "\<exists>tr. snd (leer_filtrar_guardar env p tr0) = tr0 @ tr
      \<and> retenidas_tras tr = [] \<and> \<not> recoleccion_pendiente tr \<and> last tr = GcCollect"
    by (auto simp: leer_filtrar_guardar_def manejar_excepcion_def Let_def retenidas_tras_def
        recoleccion_pendiente_def split: option.splits sum.splits prod.splits)
  then show ?thesis by (simp add: todo_liberado_def)
qed

lemma todo_liberado_tras_sonda:
  "todo_liberado tr \<Longrightarrow> todo_liberado (GfsExists f # tr)"
  "todo_liberado []" "todo_liberado [GfsExists f]"
  by (simp_all add: todo_liberado_def retenidas_tras_def recoleccion_pendiente_def)

lemma str_int_ejemplo: "str_int 2024 = ''2024''" "str_int 7 = ''7''"
  by (simp_all add: str_int_def) code_simp+

lemma particion_ejemplo_campos: "year particion_ejemplo = 2024" "week particion_ejemplo = 7"
  by (simp_all add: particion_ejemplo_def)

lemma output_file_ejemplo:
  "output_file particion_ejemplo
     = ''tesis-vonetto-datalake/lake/silver/viajes_limpios/iso_year=2024/iso_week=7/data-0.parquet''"
  by (simp add: output_file_def output_partition_def OUTPUT_PATH_def particion_ejemplo_def
      str_int_ejemplo)

lemma aplicar_filtros_ejemplo:
  "aplicar_filtros parse_ejemplo df_ejemplo = Inr (df_ejemplo_limpio, stats_ejemplo)"
  by (simp add: aplicar_filtros_def Let_def truediv_def len_def
      filtro_tiempos_def columnas_calculadas_def filtro_paraderos_def filtro_distancias_def
      convertir_distancias_def imputar_dveh_eucfinal_def eliminar_temporales_def
      columnas_temporales_def drop_columns_def quitar_columna_def with_columns_def filter_df_def
      fill_null_def expr_add_def gt_int64_def gt_float64_def is_null_def is_not_null_def
      when_then_otherwise_def cast_float64_def parse_ejemplo_def
      df_ejemplo_def df_ejemplo_limpio_def stats_ejemplo_def viaje_a_def viaje_nulo_def
      viaje_sin_paradero_def viaje_abc_def viaje_a_limpio_def columnas_entrada_def
      word_sless_alt)

lemma llamar_aplicar_filtros_ejemplo:
  "llamar_aplicar_filtros entorno_ejemplo df_ejemplo = Inr (df_ejemplo_limpio, stats_ejemplo)"
  "llamar_aplicar_filtros entorno_escritura_falla df_ejemplo
     = Inr (df_ejemplo_limpio, stats_ejemplo)"
  "llamar_aplicar_filtros entorno_sin_columna (df_ejemplo\<lparr>columns := tl columnas_entrada\<rparr>)
     = Inl (Exception ''unable to find column tv1'')"
proof -
  have c: "filter (\<lambda>c. c \<notin> set (columns df_ejemplo)) columnas_leidas = []"
    by (simp add: df_ejemplo_def columnas_entrada_def columnas_leidas_def)
  have p: "parse_float entorno_ejemplo = parse_ejemplo"
    "parse_float entorno_escritura_falla = parse_ejemplo"
    by (simp_all add: entorno_ejemplo_def entorno_escritura_falla_def)
  show "llamar_aplicar_filtros entorno_ejemplo df_ejemplo = Inr (df_ejemplo_limpio, stats_ejemplo)"
    "llamar_aplicar_filtros entorno_escritura_falla df_ejemplo
       = Inr (df_ejemplo_limpio, stats_ejemplo)"
    by (simp_all add: llamar_aplicar_filtros_def c p aplicar_filtros_ejemplo)
  have f: "filter (\<lambda>c. c \<notin> set (tl columnas_entrada)) columnas_leidas = [''tv1'']"
    by (simp add: columnas_entrada_def columnas_leidas_def)
  have n: "column_not_found entorno_sin_columna = (\<lambda>c. Exception (''unable to find column '' @ c))"
    by (simp add: entorno_sin_columna_def entorno_ejemplo_def)
  show "llamar_aplicar_filtros entorno_sin_columna (df_ejemplo\<lparr>columns := tl columnas_entrada\<rparr>)
     = Inl (Exception ''unable to find column tv1'')"
    by (simp add: llamar_aplicar_filtros_def f n)
qed

lemma entornos_ejemplo_campos:
  "credenciales entorno_escritura_falla = None"
  "gfs_exists entorno_escritura_falla = (\<lambda>f. Inr False)"
  "open_input_file entorno_escritura_falla = (\<lambda>f. None)"
  "read_table entorno_escritura_falla = (\<lambda>f. Inr df_ejemplo)"
  "from_arrow entorno_escritura_falla = (\<lambda>t. Inr t)"
  "gfs_makedirs entorno_escritura_falla = (\<lambda>d. None)"
  "gfs_open_wb entorno_escritura_falla = (\<lambda>f. None)"
  "write_parquet entorno_escritura_falla = (\<lambda>f d. Some (Exception ''quota exceeded''))"
  "format_exc entorno_escritura_falla = (\<lambda>e. ''Traceback (most recent call last): '' @ str e)"
  "credenciales entorno_sin_columna = None"
  "gfs_exists entorno_sin_columna = (\<lambda>f. Inr False)"
  "open_input_file entorno_sin_columna = (\<lambda>f. None)"
  "read_table entorno_sin_columna = (\<lambda>f. Inr (df_ejemplo\<lparr>columns := tl columnas_entrada\<rparr>))"
  "from_arrow entorno_sin_columna = (\<lambda>t. Inr t)"
  "format_exc entorno_sin_columna = (\<lambda>e. ''Traceback (most recent call last): '' @ str e)"
  by (simp_all add: entorno_escritura_falla_def entorno_sin_columna_def entorno_ejemplo_def)

lemma primera_excepcion_ejemplos:
  "primera_excepcion entorno_escritura_falla particion_ejemplo = Some (Exception ''quota exceeded'')"
  "primera_excepcion entorno_sin_columna particion_ejemplo
     = Some (Exception ''unable to find column tv1'')"
  by (simp_all add: primera_excepcion_def entornos_ejemplo_campos llamar_aplicar_filtros_ejemplo)

lemma todo_liberado_worker: "todo_liberado (snd (procesar_particion env p force_reprocess))"
  using leer_filtrar_guardar_traza [of env p "[GfsExists (output_file p)]"]
  by (auto simp: procesar_particion_def Let_def todo_liberado_tras_sonda
      split: option.splits sum.splits)

lemma worker_escritura_falla:
  "procesar_particion entorno_escritura_falla particion_ejemplo False
     = (Return (Error 2024 7
          (''quota exceeded'' @ [CHR 0x0A] @ ''Traceback (most recent call last): quota exceeded'')),
        [GfsExists (output_file particion_ejemplo),
         OpenInputFile (path particion_ejemplo), ReadTable (path particion_ejemplo),
         Bind ''tabla'', FromArrow, Bind ''df'', Del ''tabla'', GcCollect,
         Bind ''df_filtrado'', Del ''df'', GcCollect,
         Makedirs (output_partition particion_ejemplo),
         OpenWb (output_file particion_ejemplo), WriteParquet (output_file particion_ejemplo),
         Del ''df_filtrado'', GcCollect])"
  by (simp add: procesar_particion_def leer_filtrar_guardar_def manejar_excepcion_def Let_def
      entornos_ejemplo_campos llamar_aplicar_filtros_ejemplo particion_ejemplo_campos)

lemma worker_sin_columna:
  "procesar_particion entorno_sin_columna particion_ejemplo False
     = (Return (Error 2024 7
          (''unable to find column tv1'' @ [CHR 0x0A]
             @ ''Traceback (most recent call last): unable to find column tv1'')),
        [GfsExists (output_file particion_ejemplo),
         OpenInputFile (path particion_ejemplo), ReadTable (path particion_ejemplo),
         Bind ''tabla'', FromArrow, Bind ''df'', Del ''tabla'', GcCollect,
         Del ''df'', GcCollect])"
  by (simp add: procesar_particion_def leer_filtrar_guardar_def manejar_excepcion_def Let_def
      entornos_ejemplo_campos llamar_aplicar_filtros_ejemplo particion_ejemplo_campos)

lemma fold_acumular_campos:
  "n_inicial (fold (\<lambda>f g. acumular g f) fs g)
     = n_inicial g + sum_list (map n_inicial (stats_de_exitos fs))"
  "n_filtrados_tiempo (fold (\<lambda>f g. acumular g f) fs g)
     = n_filtrados_tiempo g + sum_list (map n_filtrados_tiempo (stats_de_exitos fs))"
  "n_filtrados_paraderos (fold (\<lambda>f g. acumular g f) fs g)
     = n_filtrados_paraderos g + sum_list (map n_filtrados_paraderos (stats_de_exitos fs))"
  "n_filtrados_dist (fold (\<lambda>f g. acumular g f) fs g)
     = n_filtrados_dist g + sum_list (map n_filtrados_dist (stats_de_exitos fs))"
  "n_final (fold (\<lambda>f g. acumular g f) fs g)
     = n_final g + sum_list (map n_final (stats_de_exitos fs))"
  by (induction fs arbitrary: g rule: stats_de_exitos.induct; simp)+

lemma fold_acumular_contadores:
  "particiones_procesadas (fold (\<lambda>f g. acumular g f) fs g)
     = particiones_procesadas g + int (length (stats_de_exitos fs))"
  "particiones_skipped (fold (\<lambda>f g. acumular g f) fs g)
     = particiones_skipped g + int (length (filter es_skipped fs))"
  "particiones_fallidas (fold (\<lambda>f g. acumular g f) fs g)
     = particiones_fallidas g + int (length (filter termina_en_error fs))"
  by (induction fs arbitrary: g rule: stats_de_exitos.induct;
      simp add: es_skipped_def termina_en_error_def)+

lemma columns_etapas:
  "columns (filtro_tiempos df) = columns df"
  "columns (filtro_paraderos df) = columns df"
  "columns (columnas_calculadas df) = columns df @ filter (\<lambda>n. n \<notin> set (columns df))
      [''t_vehiculo_total_seg'', ''t_total_calculado_seg'', ''d_vehiculo_eucl_total_m'']"
  "columns (imputar_dveh_eucfinal df)
     = columns df @ filter (\<lambda>n. n \<notin> set (columns df)) [''dveh_eucfinal'']"
  "columns (convertir_distancias parse df)
     = columns df @ filter (\<lambda>n. n \<notin> set (columns df)) columnas_temporales"
  by (simp_all add: filtro_tiempos_def filtro_paraderos_def columnas_calculadas_def
      imputar_dveh_eucfinal_def convertir_distancias_def columnas_temporales_def
      columns_filter_df columns_with_columns)

lemma columns_etapa_distancias:
  "columns (eliminar_temporales (filtro_distancias (convertir_distancias parse df)))
     = filter (\<lambda>c. c \<notin> set columnas_temporales) (columns df)"
  unfolding eliminar_temporales_convertir
  by (simp add: drop_columns_def columns_filtro_distancias columns_etapas(5))

lemma rows_salida_campos:
  assumes "r \<in> set (rows (eliminar_temporales (filtro_distancias (convertir_distancias parse
      (imputar_dveh_eucfinal (filtro_paraderos (filtro_tiempos (columnas_calculadas df))))))))"
  shows "t_vehiculo_total_seg r = Some (suma_vehiculo r)
     \<and> t_total_calculado_seg r = Some (suma_total r)
     \<and> d_vehiculo_eucl_total_m r = Some (suma_euclidiana r)
     \<and> distancia_ruta_float r = None \<and> distancia_eucl_float r = None"
proof -
  let ?df2 = "filtro_paraderos (filtro_tiempos (columnas_calculadas df))"
  have sumas: "\<forall>r \<in> set (rows ?df2). d_vehiculo_eucl_total_m r = Some (suma_euclidiana r)"
    using etapa_paraderos_sumas [of df] by blast
  from assms obtain r' where r': "r' \<in> set (rows ?df2)" "r = con_imputacion r'"
    unfolding rows_etapa_distancias [OF sumas] by auto
  have "distancia_ruta_float (con_imputacion r') = None"
    "distancia_eucl_float (con_imputacion r') = None"
    by (simp_all add: con_imputacion_def)
  then show ?thesis
    using r' etapa_paraderos_sumas [of df] by simp
qed

lemma nulo_como_cero_of_int: "nulo_como_cero v = word_of_int (valor_o_cero v)"
  by (simp add: nulo_como_cero_def valor_o_cero_def split: option.splits)

lemma sumas_of_int:
  "suma_vehiculo r = word_of_int (suma_vehiculo_exacta r)"
  "suma_total r = word_of_int (suma_total_exacta r)"
  "suma_euclidiana r = word_of_int (suma_euclidiana_exacta r)"
  by (simp_all add: suma_vehiculo_def suma_vehiculo_exacta_def suma_total_def
      suma_total_exacta_def suma_euclidiana_def suma_euclidiana_exacta_def
      nulo_como_cero_of_int)

lemma sint_cabe: "cabe_en_int64 n \<Longrightarrow> sint (word_of_int n :: int64) = n"
  by (simp add: cabe_en_int64_def sint_sbintrunc' signed_take_bit_int_eq_self)

lemma sint_sumas:
  "cabe_en_int64 (suma_vehiculo_exacta r) \<Longrightarrow> sint (suma_vehiculo r) = suma_vehiculo_exacta r"
  "cabe_en_int64 (suma_total_exacta r) \<Longrightarrow> sint (suma_total r) = suma_total_exacta r"
  "cabe_en_int64 (suma_euclidiana_exacta r) \<Longrightarrow> sint (suma_euclidiana r) = suma_euclidiana_exacta r"
  by (simp_all add: sumas_of_int sint_cabe)

lemma tiempos_positivos_sin_desborde:
  assumes "cabe_en_int64 (suma_vehiculo_exacta r)" and "cabe_en_int64 (suma_total_exacta r)"
  shows "tiempos_positivos_int64 r \<longleftrightarrow> tiempos_positivos r"
  using assms
  by (simp add: tiempos_positivos_int64_def tiempos_positivos_def word_sless_alt sint_sumas)

lemma sin_tiempo_suma_exacta: "sin_tiempo_de_vehiculo r \<Longrightarrow> suma_vehiculo_exacta r = 0"
  by (auto simp: sin_tiempo_de_vehiculo_def suma_vehiculo_exacta_def valor_o_cero_def)

lemma sin_tiempo_no_positivo_exacto: "sin_tiempo_de_vehiculo r \<Longrightarrow> \<not> tiempos_positivos r"
  by (simp add: sin_tiempo_suma_exacta tiempos_positivos_def)

lemma campos_de_salida [simp]:
  "suma_vehiculo_exacta (con_sumas r) = suma_vehiculo_exacta r"
  "suma_total_exacta (con_sumas r) = suma_total_exacta r"
  "suma_euclidiana_exacta (con_sumas r) = suma_euclidiana_exacta r"
  "suma_vehiculo_exacta (con_imputacion r) = suma_vehiculo_exacta r"
  "suma_total_exacta (con_imputacion r) = suma_total_exacta r"
  "tiempos_positivos_int64 (con_sumas r) = tiempos_positivos_int64 r"
  "tiempos_positivos_int64 (con_imputacion r) = tiempos_positivos_int64 r"
  "tiempos_positivos (con_sumas r) = tiempos_positivos r"
  "tiempos_positivos (con_imputacion r) = tiempos_positivos r"
  "sin_tiempo_de_vehiculo (con_sumas r) = sin_tiempo_de_vehiculo r"
  "sin_tiempo_de_vehiculo (con_imputacion r) = sin_tiempo_de_vehiculo r"
  "dveh_eucfinal (con_sumas r) = dveh_eucfinal r"
  "distancia_ruta (con_sumas r) = distancia_ruta r"
  "distancia_eucl (con_sumas r) = distancia_eucl r"
  by (simp_all add: con_sumas_def con_imputacion_def suma_vehiculo_exacta_def
      suma_total_exacta_def suma_euclidiana_exacta_def tiempos_positivos_int64_def
      tiempos_positivos_def sin_tiempo_de_vehiculo_def suma_vehiculo_def suma_total_def)

lemma rows_aplicar_filtros:
  assumes "aplicar_filtros parse df = Inr (out, st)"
  shows "rows out = map con_imputacion (filter (pasa_filtro_distancias parse)
           (filter paraderos_presentes (map con_sumas (filter tiempos_positivos_int64 (rows df)))))"
proof -
  let ?df2 = "filtro_paraderos (filtro_tiempos (columnas_calculadas df))"
  have sumas: "\<forall>r \<in> set (rows ?df2). d_vehiculo_eucl_total_m r = Some (suma_euclidiana r)"
    using etapa_paraderos_sumas [of df] by blast
  have "out = eliminar_temporales (filtro_distancias (convertir_distancias parse
      (imputar_dveh_eucfinal ?df2)))"
    using assms by (simp add: aplicar_filtros_Inr [OF refl refl refl])
  then show ?thesis
    by (simp add: rows_etapa_distancias [OF sumas] rows_filtro_paraderos rows_etapa_tiempos)
qed

lemma salida_pasa_etapa_tiempos:
  assumes "aplicar_filtros parse df = Inr (out, st)" and "r \<in> set (rows out)"
  shows "t_vehiculo_total_seg r = Some (suma_vehiculo r)
     \<and> t_total_calculado_seg r = Some (suma_total r)
     \<and> tiempos_positivos_int64 r \<and> \<not> sin_tiempo_de_vehiculo r"
proof -
  from assms obtain r0 where r0: "r = con_imputacion (con_sumas r0)" "tiempos_positivos_int64 r0"
    unfolding rows_aplicar_filtros [OF assms(1)] by auto
  then show ?thesis
    using sin_tiempo_no_positivo [of r0] by auto
qed

lemma sumas_exactas_ejemplo:
  "suma_vehiculo_exacta viaje_a = 150" "suma_total_exacta viaje_a = 160"
  "suma_vehiculo_exacta viaje_nulo = 0" "suma_total_exacta viaje_nulo = 0"
  "suma_vehiculo_exacta viaje_sin_paradero = 150" "suma_total_exacta viaje_sin_paradero = 160"
  "suma_vehiculo_exacta viaje_abc = 150" "suma_total_exacta viaje_abc = 160"
  "suma_vehiculo_exacta viaje_desborde = - 9223372036854775809"
  "suma_total_exacta viaje_desborde = - 9223372036854775809"
  by (simp_all add: suma_vehiculo_exacta_def suma_total_exacta_def valor_o_cero_def
      viaje_a_def viaje_nulo_def viaje_sin_paradero_def viaje_abc_def viaje_desborde_def)

lemma aplicar_filtros_desborde:
  "aplicar_filtros parse_ejemplo df_desborde = Inr (df_desborde_limpio, stats_desborde)"
  by (simp add: aplicar_filtros_def Let_def truediv_def len_def
      filtro_tiempos_def columnas_calculadas_def filtro_paraderos_def filtro_distancias_def
      convertir_distancias_def imputar_dveh_eucfinal_def eliminar_temporales_def
      columnas_temporales_def drop_columns_def quitar_columna_def with_columns_def filter_df_def
      fill_null_def expr_add_def gt_int64_def gt_float64_def is_null_def is_not_null_def
      when_then_otherwise_def cast_float64_def parse_ejemplo_def
      df_desborde_def df_desborde_limpio_def stats_desborde_def viaje_desborde_def
      viaje_a_def viaje_nulo_def columnas_entrada_def word_sless_alt)












lemma ultimo_evento_try: "last (snd (leer_filtrar_guardar env p tr0)) = GcCollect"
  by (auto simp: leer_filtrar_guardar_def manejar_excepcion_def Let_def
      split: option.splits sum.splits prod.splits)

subsection \<open>The partition filter\<close>

text \<open>
  Claim C1, as amended. \<^verbatim>\<open>aplicar_filtros\<close> returns, and stage 1 of it gives every
  record the columns \<^verbatim>\<open>t_vehiculo_total_seg\<close> and \<^verbatim>\<open>t_total_calculado_seg\<close>: the \<^verbatim>\<open>Int64\<close>
  sums, modulo \<open>2^64\<close>, of \<^verbatim>\<open>tv1..tv4\<close> and of \<^verbatim>\<open>te0..te3\<close>, \<^verbatim>\<open>tv1..tv4\<close>, \<^verbatim>\<open>tc1..tc3\<close>,
  a null component counting as 0. It keeps exactly the records where both of these
  are above 0 in the signed order; the returned records are those among them that
  pass stages 2 and 3, each carrying its two sums, and \<^verbatim>\<open>n_filtrados_tiempo\<close> counts
  the records that stage 1 removed. For a record whose exact sums fit in \<^verbatim>\<open>Int64\<close> the
  columns hold the exact sums, and the record is kept by stage 1 exactly if both
  exact sums are strictly positive; so it is for a whole partition of such records.
  A record whose vehicle times are all null or zero is removed, and none is returned.
  The counterexample is a record with \<^verbatim>\<open>tv1\<close> the least \<^verbatim>\<open>Int64\<close> and \<^verbatim>\<open>tv2 = -1\<close>: both
  exact sums are negative and the record is returned.
\<close>

theorem etapa_tiempos_correcta:
  "\<exists>out st. aplicar_filtros parse df = Inr (out, st)
     \<and> rows (filtro_tiempos (columnas_calculadas df))
         = map con_sumas (filter tiempos_positivos_int64 (rows df))
     \<and> rows out = map con_imputacion (filter (pasa_filtro_distancias parse)
         (filter paraderos_presentes (map con_sumas (filter tiempos_positivos_int64 (rows df)))))
     \<and> n_filtrados_tiempo st
         = int (length (rows df)) - int (length (filter tiempos_positivos_int64 (rows df)))
     \<and> (\<forall>r \<in> set (rows out).
           t_vehiculo_total_seg r = Some (suma_vehiculo r)
           \<and> t_total_calculado_seg r = Some (suma_total r)
           \<and> tiempos_positivos_int64 r \<and> \<not> sin_tiempo_de_vehiculo r)
     \<and> (\<forall>r \<in> set (rows df). sin_tiempo_de_vehiculo r \<longrightarrow>
           \<not> tiempos_positivos_int64 r \<and> \<not> tiempos_positivos r)
     \<and> (\<forall>r \<in> set (rows df).
           cabe_en_int64 (suma_vehiculo_exacta r) \<and> cabe_en_int64 (suma_total_exacta r) \<longrightarrow>
           sint (suma_vehiculo r) = suma_vehiculo_exacta r
           \<and> sint (suma_total r) = suma_total_exacta r
           \<and> tiempos_positivos_int64 r = tiempos_positivos r)
     \<and> ((\<forall>r \<in> set (rows df).
            cabe_en_int64 (suma_vehiculo_exacta r) \<and> cabe_en_int64 (suma_total_exacta r)) \<longrightarrow>
          filter tiempos_positivos_int64 (rows df) = filter tiempos_positivos (rows df)
          \<and> (\<forall>r \<in> set (rows out).
                map_option sint (t_vehiculo_total_seg r) = Some (suma_vehiculo_exacta r)
                \<and> map_option sint (t_total_calculado_seg r) = Some (suma_total_exacta r)
                \<and> tiempos_positivos r))"
proof -
  obtain out st where o: "aplicar_filtros parse df = Inr (out, st)"
    and n: "n_filtrados_tiempo st = len df - len (filtro_tiempos (columnas_calculadas df))"
    using aplicar_filtros_Inr [OF refl refl refl, of parse df] by simp
  have a: "rows (filtro_tiempos (columnas_calculadas df))
         = map con_sumas (filter tiempos_positivos_int64 (rows df))"
    by (rule rows_etapa_tiempos)
  have c: "n_filtrados_tiempo st
         = int (length (rows df)) - int (length (filter tiempos_positivos_int64 (rows df)))"
    by (simp add: n len_def a)
  have d: "\<forall>r \<in> set (rows out).
           t_vehiculo_total_seg r = Some (suma_vehiculo r)
           \<and> t_total_calculado_seg r = Some (suma_total r)
           \<and> tiempos_positivos_int64 r \<and> \<not> sin_tiempo_de_vehiculo r"
    using salida_pasa_etapa_tiempos [OF o] by blast
  have e: "\<forall>r \<in> set (rows df). sin_tiempo_de_vehiculo r \<longrightarrow>
           \<not> tiempos_positivos_int64 r \<and> \<not> tiempos_positivos r"
    by (simp add: sin_tiempo_no_positivo sin_tiempo_no_positivo_exacto)
  have f: "\<forall>r \<in> set (rows df).
           cabe_en_int64 (suma_vehiculo_exacta r) \<and> cabe_en_int64 (suma_total_exacta r) \<longrightarrow>
           sint (suma_vehiculo r) = suma_vehiculo_exacta r
           \<and> sint (suma_total r) = suma_total_exacta r
           \<and> tiempos_positivos_int64 r = tiempos_positivos r"
    by (simp add: sint_sumas tiempos_positivos_sin_desborde)
  have g: "filter tiempos_positivos_int64 (rows df) = filter tiempos_positivos (rows df)
          \<and> (\<forall>r \<in> set (rows out).
                map_option sint (t_vehiculo_total_seg r) = Some (suma_vehiculo_exacta r)
                \<and> map_option sint (t_total_calculado_seg r) = Some (suma_total_exacta r)
                \<and> tiempos_positivos r)"
    if h: "\<forall>r \<in> set (rows df).
            cabe_en_int64 (suma_vehiculo_exacta r) \<and> cabe_en_int64 (suma_total_exacta r)"
  proof -
    have eq: "filter tiempos_positivos_int64 (rows df) = filter tiempos_positivos (rows df)"
      using h by (intro filter_cong refl) (simp add: tiempos_positivos_sin_desborde)
    have "map_option sint (t_vehiculo_total_seg r) = Some (suma_vehiculo_exacta r)
                \<and> map_option sint (t_total_calculado_seg r) = Some (suma_total_exacta r)
                \<and> tiempos_positivos r" if r: "r \<in> set (rows out)" for r
    proof -
      from r obtain r0 where r0: "r = con_imputacion (con_sumas r0)" "r0 \<in> set (rows df)"
          "tiempos_positivos_int64 r0"
        unfolding rows_aplicar_filtros [OF o] by auto
      have cabe: "cabe_en_int64 (suma_vehiculo_exacta r0)" "cabe_en_int64 (suma_total_exacta r0)"
        using h r0(2) by auto
      show ?thesis
        using r0 cabe tiempos_positivos_sin_desborde [OF cabe]
        by (simp add: sint_sumas)
    qed
    then show ?thesis using eq by blast
  qed
  from o a rows_aplicar_filtros [OF o] c d e f g show ?thesis by blast
qed

theorem etapa_tiempos_correcta_witness:
  "list_all (\<lambda>r. cabe_en_int64 (suma_vehiculo_exacta r) \<and> cabe_en_int64 (suma_total_exacta r))
     (rows df_ejemplo)
   \<and> viaje_nulo \<in> set (rows df_ejemplo) \<and> sin_tiempo_de_vehiculo viaje_nulo
   \<and> filter tiempos_positivos (rows df_ejemplo) = [viaje_a, viaje_sin_paradero, viaje_abc]
   \<and> rows (filtro_tiempos (columnas_calculadas df_ejemplo))
       = [con_sumas viaje_a, con_sumas viaje_sin_paradero, con_sumas viaje_abc]
   \<and> aplicar_filtros parse_ejemplo df_ejemplo = Inr (df_ejemplo_limpio, stats_ejemplo)
   \<and> rows df_ejemplo_limpio = [viaje_a_limpio] \<and> n_filtrados_tiempo stats_ejemplo = 1
   \<and> map_option sint (t_vehiculo_total_seg viaje_a_limpio) = Some 150
   \<and> map_option sint (t_total_calculado_seg viaje_a_limpio) = Some 160
   \<and> tiempos_positivos viaje_a_limpio"
proof -
  have filas: "rows df_ejemplo = [viaje_a, viaje_nulo, viaje_sin_paradero, viaje_abc]"
    by (simp add: df_ejemplo_def)
  have cabe: "\<forall>r \<in> set (rows df_ejemplo).
      cabe_en_int64 (suma_vehiculo_exacta r) \<and> cabe_en_int64 (suma_total_exacta r)"
    by (simp add: filas sumas_exactas_ejemplo cabe_en_int64_def)
  have pos: "tiempos_positivos viaje_a" "tiempos_positivos viaje_sin_paradero"
    "tiempos_positivos viaje_abc" "\<not> tiempos_positivos viaje_nulo"
    by (simp_all add: tiempos_positivos_def sumas_exactas_ejemplo)
  have nulo: "sin_tiempo_de_vehiculo viaje_nulo"
    by (simp add: sin_tiempo_de_vehiculo_def viaje_nulo_def)
  have fil: "filter tiempos_positivos (rows df_ejemplo) = [viaje_a, viaje_sin_paradero, viaje_abc]"
    by (simp add: filas pos)
  have lim: "rows df_ejemplo_limpio = [viaje_a_limpio]" "n_filtrados_tiempo stats_ejemplo = 1"
    by (simp_all add: df_ejemplo_limpio_def stats_ejemplo_def)
  from etapa_tiempos_correcta [where parse = parse_ejemplo and df = df_ejemplo]
  obtain out st where o: "aplicar_filtros parse_ejemplo df_ejemplo = Inr (out, st)"
    and e1: "rows (filtro_tiempos (columnas_calculadas df_ejemplo))
         = map con_sumas (filter tiempos_positivos_int64 (rows df_ejemplo))"
    and g: "(\<forall>r \<in> set (rows df_ejemplo).
            cabe_en_int64 (suma_vehiculo_exacta r) \<and> cabe_en_int64 (suma_total_exacta r)) \<longrightarrow>
          filter tiempos_positivos_int64 (rows df_ejemplo) = filter tiempos_positivos (rows df_ejemplo)
          \<and> (\<forall>r \<in> set (rows out).
                map_option sint (t_vehiculo_total_seg r) = Some (suma_vehiculo_exacta r)
                \<and> map_option sint (t_total_calculado_seg r) = Some (suma_total_exacta r)
                \<and> tiempos_positivos r)"
    by blast
  have out: "out = df_ejemplo_limpio"
    using o by (simp add: aplicar_filtros_ejemplo)
  have etapa: "rows (filtro_tiempos (columnas_calculadas df_ejemplo))
       = [con_sumas viaje_a, con_sumas viaje_sin_paradero, con_sumas viaje_abc]"
    using e1 g cabe by (simp add: fil)
  have sal: "map_option sint (t_vehiculo_total_seg viaje_a_limpio)
        = Some (suma_vehiculo_exacta viaje_a_limpio)"
    "map_option sint (t_total_calculado_seg viaje_a_limpio)
        = Some (suma_total_exacta viaje_a_limpio)"
    "tiempos_positivos viaje_a_limpio"
    using g cabe by (simp_all add: out lim)
  have ex: "suma_vehiculo_exacta viaje_a_limpio = 150" "suma_total_exacta viaje_a_limpio = 160"
    by (simp_all add: suma_vehiculo_exacta_def suma_total_exacta_def valor_o_cero_def
        viaje_a_limpio_def viaje_a_def viaje_nulo_def)
  have todas: "list_all
      (\<lambda>r. cabe_en_int64 (suma_vehiculo_exacta r) \<and> cabe_en_int64 (suma_total_exacta r))
      (rows df_ejemplo)"
    using cabe by (simp add: list_all_iff)
  have en: "viaje_nulo \<in> set (rows df_ejemplo)"
    by (simp add: filas)
  show ?thesis
    using todas en nulo fil etapa sal lim aplicar_filtros_ejemplo
    by (simp add: ex)
qed

theorem etapa_tiempos_contraejemplo:
  "suma_vehiculo_exacta viaje_desborde = - 9223372036854775809
   \<and> suma_total_exacta viaje_desborde = - 9223372036854775809
   \<and> \<not> tiempos_positivos viaje_desborde
   \<and> rows df_desborde = [viaje_desborde]
   \<and> aplicar_filtros parse_ejemplo df_desborde = Inr (df_desborde_limpio, stats_desborde)
   \<and> n_final stats_desborde = 1 \<and> n_filtrados_tiempo stats_desborde = 0
   \<and> map t_vehiculo_total_seg (rows df_desborde_limpio) = [Some 9223372036854775807]
   \<and> map tv1 (rows df_desborde_limpio) = [Some (- 9223372036854775808)]
   \<and> map tv2 (rows df_desborde_limpio) = [Some (- 1)]"
proof -
  have a: "\<not> tiempos_positivos viaje_desborde"
    by (simp add: tiempos_positivos_def sumas_exactas_ejemplo)
  have b: "rows df_desborde = [viaje_desborde]"
    "n_final stats_desborde = 1" "n_filtrados_tiempo stats_desborde = 0"
    by (simp_all add: df_desborde_def stats_desborde_def)
  have c: "map t_vehiculo_total_seg (rows df_desborde_limpio) = [Some 9223372036854775807]"
    "map tv1 (rows df_desborde_limpio) = [Some (- 9223372036854775808)]"
    "map tv2 (rows df_desborde_limpio) = [Some (- 1)]"
    by (simp_all add: df_desborde_limpio_def viaje_desborde_def)
  show ?thesis
    using a b c sumas_exactas_ejemplo(9,10) aplicar_filtros_desborde by simp
qed




text \<open>
  Claim C3. For every input frame \<^verbatim>\<open>aplicar_filtros\<close> returns statistics with
  \<^verbatim>\<open>n_final \<le> n_despues_paraderos \<le> n_despues_tiempo \<le> n_inicial\<close>, where
  \<^verbatim>\<open>n_despues_tiempo = n_inicial - n_filtrados_tiempo\<close> is the length of the frame after
  stage 1 and \<^verbatim>\<open>n_despues_paraderos = n_despues_tiempo - n_filtrados_paraderos\<close> the
  length after stage 2; the three counts of removed records are not negative.
\<close>

theorem stats_monotonas:
  "\<exists>out st. aplicar_filtros parse df = Inr (out, st)
     \<and> n_final st \<le> n_inicial st - n_filtrados_tiempo st - n_filtrados_paraderos st
     \<and> n_inicial st - n_filtrados_tiempo st - n_filtrados_paraderos st
         \<le> n_inicial st - n_filtrados_tiempo st
     \<and> n_inicial st - n_filtrados_tiempo st \<le> n_inicial st
     \<and> 0 \<le> n_filtrados_tiempo st \<and> 0 \<le> n_filtrados_paraderos st \<and> 0 \<le> n_filtrados_dist st
     \<and> n_inicial st - n_filtrados_tiempo st = len (filtro_tiempos (columnas_calculadas df))
     \<and> n_inicial st - n_filtrados_tiempo st - n_filtrados_paraderos st
         = len (filtro_paraderos (filtro_tiempos (columnas_calculadas df)))"
  using len_etapa_tiempos_le [of df]
    len_filtro_paraderos_le [of "filtro_tiempos (columnas_calculadas df)"]
    len_etapa_distancias_le [of parse "filtro_paraderos (filtro_tiempos (columnas_calculadas df))"]
  by (simp add: aplicar_filtros_Inr [OF refl refl refl])

theorem stats_monotonas_witness:
  "aplicar_filtros parse_ejemplo df_ejemplo = Inr (df_ejemplo_limpio, stats_ejemplo)
   \<and> n_inicial stats_ejemplo = 4
   \<and> len (filtro_tiempos (columnas_calculadas df_ejemplo)) = 3
   \<and> len (filtro_paraderos (filtro_tiempos (columnas_calculadas df_ejemplo))) = 2
   \<and> n_final stats_ejemplo = 1"
  using stats_monotonas [of parse_ejemplo df_ejemplo]
  by (simp add: aplicar_filtros_ejemplo stats_ejemplo_def)

text \<open>
  Claim C4. For every input frame \<^verbatim>\<open>aplicar_filtros\<close> returns, so the division never
  raises; \<^verbatim>\<open>pct_retenido\<close> lies between 0 and 100; on a frame with records it is
  \<^verbatim>\<open>n_final / n_inicial * 100\<close>; on a frame without records it is 0 and no record is
  returned.
\<close>

theorem pct_retenido_rango:
  "\<exists>out st. aplicar_filtros parse df = Inr (out, st)
     \<and> 0 \<le> pct_retenido st \<and> pct_retenido st \<le> 100
     \<and> (rows df \<noteq> [] \<longrightarrow>
          pct_retenido st = real_of_int (n_final st) / real_of_int (n_inicial st) * 100)
     \<and> (rows df = [] \<longrightarrow> pct_retenido st = 0 \<and> rows out = [])"
proof -
  define out where "out = eliminar_temporales (filtro_distancias (convertir_distancias parse
      (imputar_dveh_eucfinal (filtro_paraderos (filtro_tiempos (columnas_calculadas df))))))"
  have le: "len out \<le> len df"
    unfolding out_def
    using len_etapa_tiempos_le [of df]
      len_filtro_paraderos_le [of "filtro_tiempos (columnas_calculadas df)"]
      len_etapa_distancias_le [of parse "filtro_paraderos (filtro_tiempos (columnas_calculadas df))"]
    by linarith
  have nn: "0 \<le> len out" by (rule len_nonneg)
  have vacio: "rows out = []" if "rows df = []"
    using le nn that by (simp add: len_def)
  have cota: "real_of_int (len out) / real_of_int (len df) * 100 \<le> 100" if "0 < len df"
  proof -
    have "real_of_int (len out) / real_of_int (len df) \<le> 1"
      using le that by (simp add: divide_le_eq_1)
    then have "real_of_int (len out) / real_of_int (len df) * 100 \<le> 1 * 100"
      by (rule mult_right_mono) simp
    then show ?thesis by simp
  qed
  have pos: "0 \<le> real_of_int (len out) / real_of_int (len df) * 100"
    using nn len_nonneg [of df] by simp
  have "aplicar_filtros parse df = Inr (out,
      \<lparr>n_inicial = len df,
       n_filtrados_tiempo = len df - len (filtro_tiempos (columnas_calculadas df)),
       n_filtrados_paraderos = len (filtro_tiempos (columnas_calculadas df))
          - len (filtro_paraderos (filtro_tiempos (columnas_calculadas df))),
       n_filtrados_dist = len (filtro_paraderos (filtro_tiempos (columnas_calculadas df))) - len out,
       n_final = len out,
       pct_retenido = (if 0 < len df then real_of_int (len out) / real_of_int (len df) * 100 else 0)\<rparr>)"
    by (rule aplicar_filtros_Inr [OF refl refl out_def])
  then show ?thesis
    using cota pos vacio by (auto simp: len_def)
qed

theorem pct_retenido_rango_witness:
  "rows df_vacio = []
   \<and> (\<exists>out st. aplicar_filtros parse_ejemplo df_vacio = Inr (out, st)
        \<and> pct_retenido st = 0 \<and> rows out = [])
   \<and> rows df_ejemplo \<noteq> []
   \<and> (\<exists>out st. aplicar_filtros parse_ejemplo df_ejemplo = Inr (out, st)
        \<and> pct_retenido st = 25)"
proof -
  have v: "rows df_vacio = []" by (simp add: df_vacio_def)
  have n: "rows df_ejemplo \<noteq> []" by (simp add: df_ejemplo_def)
  have "\<exists>out st. aplicar_filtros parse_ejemplo df_vacio = Inr (out, st)
        \<and> pct_retenido st = 0 \<and> rows out = []"
    using pct_retenido_rango [of parse_ejemplo df_vacio] v by auto
  moreover have "\<exists>out st. aplicar_filtros parse_ejemplo df_ejemplo = Inr (out, st)
        \<and> pct_retenido st = 25"
    by (simp add: aplicar_filtros_ejemplo stats_ejemplo_def)
  ultimately show ?thesis using v n by blast
qed

text \<open>
  Claim C5, as amended. The frame that \<^verbatim>\<open>aplicar_filtros\<close> returns has neither of the
  two temporary columns \<^verbatim>\<open>distancia_ruta_float\<close> and \<^verbatim>\<open>distancia_eucl_float\<close>. It does
  have the three derived columns \<^verbatim>\<open>t_vehiculo_total_seg\<close>, \<^verbatim>\<open>t_total_calculado_seg\<close> and
  \<^verbatim>\<open>d_vehiculo_eucl_total_m\<close>, and every returned record carries their sums: for an
  input frame with the column \<^verbatim>\<open>dveh_eucfinal\<close>, the output columns are the input's
  without the two temporary names, followed by the derived names the input lacked.
  The counterexample is a frame with the twenty input columns: three columns are
  added to it.
\<close>

theorem columnas_de_salida:
  "\<exists>out st. aplicar_filtros parse df = Inr (out, st)
     \<and> ''distancia_ruta_float'' \<notin> set (columns out)
     \<and> ''distancia_eucl_float'' \<notin> set (columns out)
     \<and> list_all (\<lambda>n. n \<in> set (columns out))
          [''t_vehiculo_total_seg'', ''t_total_calculado_seg'', ''d_vehiculo_eucl_total_m'']
     \<and> (''dveh_eucfinal'' \<in> set (columns df) \<longrightarrow>
          columns out = filter (\<lambda>c. c \<notin> set columnas_temporales) (columns df)
            @ filter (\<lambda>n. n \<notin> set (columns df))
                [''t_vehiculo_total_seg'', ''t_total_calculado_seg'', ''d_vehiculo_eucl_total_m''])
     \<and> (\<forall>r \<in> set (rows out).
           t_vehiculo_total_seg r = Some (suma_vehiculo r)
           \<and> t_total_calculado_seg r = Some (suma_total r)
           \<and> d_vehiculo_eucl_total_m r = Some (suma_euclidiana r)
           \<and> distancia_ruta_float r = None \<and> distancia_eucl_float r = None)"
proof -
  define out where "out = eliminar_temporales (filtro_distancias (convertir_distancias parse
      (imputar_dveh_eucfinal (filtro_paraderos (filtro_tiempos (columnas_calculadas df))))))"
  have cols: "columns out = filter (\<lambda>c. c \<notin> set columnas_temporales)
      ((columns df @ filter (\<lambda>n. n \<notin> set (columns df))
          [''t_vehiculo_total_seg'', ''t_total_calculado_seg'', ''d_vehiculo_eucl_total_m''])
       @ filter (\<lambda>n. n \<notin> set (columns df @ filter (\<lambda>n. n \<notin> set (columns df))
          [''t_vehiculo_total_seg'', ''t_total_calculado_seg'', ''d_vehiculo_eucl_total_m'']))
          [''dveh_eucfinal''])"
    unfolding out_def columns_etapa_distancias columns_etapas ..
  have a: "''distancia_ruta_float'' \<notin> set (columns out)"
    "''distancia_eucl_float'' \<notin> set (columns out)"
    unfolding cols by (simp_all add: columnas_temporales_def)
  have b: "list_all (\<lambda>n. n \<in> set (columns out))
          [''t_vehiculo_total_seg'', ''t_total_calculado_seg'', ''d_vehiculo_eucl_total_m'']"
    unfolding cols by (auto simp: columnas_temporales_def)
  have c: "columns out = filter (\<lambda>c. c \<notin> set columnas_temporales) (columns df)
            @ filter (\<lambda>n. n \<notin> set (columns df))
                [''t_vehiculo_total_seg'', ''t_total_calculado_seg'', ''d_vehiculo_eucl_total_m'']"
    if "''dveh_eucfinal'' \<in> set (columns df)"
    unfolding cols using that by (simp add: columnas_temporales_def)
  have d: "\<forall>r \<in> set (rows out).
           t_vehiculo_total_seg r = Some (suma_vehiculo r)
           \<and> t_total_calculado_seg r = Some (suma_total r)
           \<and> d_vehiculo_eucl_total_m r = Some (suma_euclidiana r)
           \<and> distancia_ruta_float r = None \<and> distancia_eucl_float r = None"
    unfolding out_def using rows_salida_campos by blast
  have "\<exists>st. aplicar_filtros parse df = Inr (out, st)"
    using aplicar_filtros_Inr [OF refl refl out_def] by blast
  then show ?thesis
    using a b c d by blast
qed

theorem columnas_de_salida_witness:
  "''dveh_eucfinal'' \<in> set (columns df_ejemplo)
   \<and> (\<exists>out st. aplicar_filtros parse_ejemplo df_ejemplo = Inr (out, st)
        \<and> columns out = columnas_entrada
            @ [''t_vehiculo_total_seg'', ''t_total_calculado_seg'', ''d_vehiculo_eucl_total_m'']
        \<and> map t_vehiculo_total_seg (rows out) = [Some 150]
        \<and> map suma_vehiculo (rows out) = [150])"
proof -
  have h: "''dveh_eucfinal'' \<in> set (columns df_ejemplo)"
    by (simp add: df_ejemplo_def columnas_entrada_def)
  have f: "filter (\<lambda>c. c \<notin> set columnas_temporales) (columns df_ejemplo)
            @ filter (\<lambda>n. n \<notin> set (columns df_ejemplo))
                [''t_vehiculo_total_seg'', ''t_total_calculado_seg'', ''d_vehiculo_eucl_total_m'']
        = columnas_entrada
            @ [''t_vehiculo_total_seg'', ''t_total_calculado_seg'', ''d_vehiculo_eucl_total_m'']"
    by (simp add: df_ejemplo_def columnas_entrada_def columnas_temporales_def)
  have r: "map t_vehiculo_total_seg (rows df_ejemplo_limpio) = [Some 150]"
    by (simp add: df_ejemplo_limpio_def viaje_a_limpio_def)
  show ?thesis
    using columnas_de_salida [where parse = parse_ejemplo and df = df_ejemplo] h f r
    by (auto simp: aplicar_filtros_ejemplo)
qed

theorem esquema_contraejemplo:
  "aplicar_filtros parse_ejemplo df_ejemplo = Inr (df_ejemplo_limpio, stats_ejemplo)
   \<and> columns df_ejemplo_limpio
       = columns df_ejemplo
           @ [''t_vehiculo_total_seg'', ''t_total_calculado_seg'', ''d_vehiculo_eucl_total_m'']
   \<and> columns df_ejemplo_limpio \<noteq> columns df_ejemplo
   \<and> map t_vehiculo_total_seg (rows df_ejemplo_limpio) = [Some 150]"
proof -
  have "columns df_ejemplo_limpio
       = columns df_ejemplo
           @ [''t_vehiculo_total_seg'', ''t_total_calculado_seg'', ''d_vehiculo_eucl_total_m'']"
    by (simp add: df_ejemplo_limpio_def df_ejemplo_def)
  moreover have "map t_vehiculo_total_seg (rows df_ejemplo_limpio) = [Some 150]"
    by (simp add: df_ejemplo_limpio_def viaje_a_limpio_def)
  ultimately show ?thesis
    using aplicar_filtros_ejemplo by simp
qed

text \<open>
  Claim C10. For every input frame the statistics that \<^verbatim>\<open>aplicar_filtros\<close> returns
  split the input: \<^verbatim>\<open>n_inicial\<close> is the sum of the three counts of removed records and
  \<^verbatim>\<open>n_final\<close>, and \<^verbatim>\<open>n_final\<close> is the number of records returned.
\<close>

theorem stats_partition_input:
  "\<exists>out st. aplicar_filtros parse df = Inr (out, st)
     \<and> n_inicial st = n_filtrados_tiempo st + n_filtrados_paraderos st
                        + n_filtrados_dist st + n_final st
     \<and> n_final st = int (length (rows out))"
  by (simp add: aplicar_filtros_Inr [OF refl refl refl] len_def)

theorem stats_partition_input_witness:
  "aplicar_filtros parse_ejemplo df_ejemplo = Inr (df_ejemplo_limpio, stats_ejemplo)
   \<and> n_inicial stats_ejemplo
       = n_filtrados_tiempo stats_ejemplo + n_filtrados_paraderos stats_ejemplo
         + n_filtrados_dist stats_ejemplo + n_final stats_ejemplo
   \<and> n_final stats_ejemplo = int (length (rows df_ejemplo_limpio))"
  using stats_partition_input [of parse_ejemplo df_ejemplo]
  by (simp add: aplicar_filtros_ejemplo)

subsection \<open>The partition worker\<close>

text \<open>
  Claim C6. Let the existence probe report the output file
  \<^verbatim>\<open><OUTPUT_PATH>/iso_year=<Y>/iso_week=<W>/data-0.parquet\<close>, with reprocessing not forced.
  Then the worker never opens or reads the input, and, its credentials acquired
  (step 1), it returns \<^verbatim>\<open>skipped\<close> after that one probe. Where acquiring the
  credentials raised, step 3 is not reached: the worker returns the authentication
  error, before any probe.
\<close>

theorem skipped_sin_leer_entrada:
  assumes "gfs_exists env (output_file p) = Inr True" and "\<not> force_reprocess"
  shows "\<not> list_ex lee_entrada (snd (procesar_particion env p force_reprocess))
    \<and> (credenciales env = None \<longrightarrow>
          procesar_particion env p force_reprocess
            = (Return (Skipped (year p) (week p)), [GfsExists (output_file p)]))
    \<and> (\<forall>e. credenciales env = Some e \<longrightarrow>
          procesar_particion env p force_reprocess
            = (Return (Error (year p) (week p) (mensaje_autenticacion e)), []))
    \<and> output_file p
         = OUTPUT_PATH @ ''/iso_year='' @ str_int (year p) @ ''/iso_week='' @ str_int (week p)
             @ ''/data-0.parquet''"
  using assms
  by (auto simp: procesar_particion_def Let_def lee_entrada_def output_file_def
      output_partition_def split: option.splits)

theorem skipped_sin_leer_entrada_witness:
  "gfs_exists entorno_ya_procesado (output_file particion_ejemplo) = Inr True
   \<and> credenciales entorno_ya_procesado = None
   \<and> procesar_particion entorno_ya_procesado particion_ejemplo False
       = (Return (Skipped 2024 7),
          [GfsExists ''tesis-vonetto-datalake/lake/silver/viajes_limpios/iso_year=2024/iso_week=7/data-0.parquet''])
   \<and> \<not> list_ex lee_entrada (snd (procesar_particion entorno_ya_procesado particion_ejemplo False))
   \<and> gfs_exists entorno_sin_credenciales (output_file particion_ejemplo) = Inr True
   \<and> credenciales entorno_sin_credenciales = Some (Exception ''No ADC'')
   \<and> snd (procesar_particion entorno_sin_credenciales particion_ejemplo False) = []"
proof -
  have ex: "gfs_exists entorno_ya_procesado (output_file particion_ejemplo) = Inr True"
    "gfs_exists entorno_sin_credenciales (output_file particion_ejemplo) = Inr True"
    by (simp_all add: entorno_ya_procesado_def entorno_sin_credenciales_def)
  have cr: "credenciales entorno_ya_procesado = None"
    "credenciales entorno_sin_credenciales = Some (Exception ''No ADC'')"
    by (simp_all add: entorno_ya_procesado_def entorno_ejemplo_def entorno_sin_credenciales_def)
  show ?thesis
    using skipped_sin_leer_entrada [of entorno_ya_procesado particion_ejemplo False]
      skipped_sin_leer_entrada [of entorno_sin_credenciales particion_ejemplo False] ex cr
    by (simp add: output_file_ejemplo particion_ejemplo_campos str_int_ejemplo OUTPUT_PATH_def
        lee_entrada_def)
qed

text \<open>
  Claim C7, as amended. An exception raised while the credentials are acquired is
  caught: the result is an error whose message is the authentication prefix and
  \<^verbatim>\<open>str(e)\<close>, without a trace. Once the partition is not skipped, the first exception
  raised while reading, filtering or writing is caught: the result is an error whose
  message is \<^verbatim>\<open>str(e)\<close>, a newline and the formatted traceback, and a collection is
  the last thing the worker does. However the worker ends, no structure that it
  bound is still bound, and a collection followed the last deletion. The
  counterexample is the authentication error: its message has no trace.
\<close>

theorem excepciones_del_worker:
  "(\<forall>e. credenciales env = Some e \<longrightarrow>
       procesar_particion env p force_reprocess
         = (Return (Error (year p) (week p) (mensaje_autenticacion e)), []))
   \<and> (\<forall>e. credenciales env = None
         \<and> (gfs_exists env (output_file p) = Inr False
              \<or> gfs_exists env (output_file p) = Inr True \<and> force_reprocess)
         \<and> primera_excepcion env p = Some e \<longrightarrow>
         fst (procesar_particion env p force_reprocess)
           = Return (Error (year p) (week p) (str e @ [CHR 0x0A] @ format_exc env e))
         \<and> last (snd (procesar_particion env p force_reprocess)) = GcCollect)
   \<and> todo_liberado (snd (procesar_particion env p force_reprocess))"
proof -
  have a: "\<forall>e. credenciales env = Some e \<longrightarrow>
       procesar_particion env p force_reprocess
         = (Return (Error (year p) (week p) (mensaje_autenticacion e)), [])"
    by (simp add: procesar_particion_def)
  have b: "\<forall>e. credenciales env = None
         \<and> (gfs_exists env (output_file p) = Inr False
              \<or> gfs_exists env (output_file p) = Inr True \<and> force_reprocess)
         \<and> primera_excepcion env p = Some e \<longrightarrow>
         fst (procesar_particion env p force_reprocess)
           = Return (Error (year p) (week p) (str e @ [CHR 0x0A] @ format_exc env e))
         \<and> last (snd (procesar_particion env p force_reprocess)) = GcCollect"
    using leer_filtrar_guardar_error [of env p _ "[GfsExists (output_file p)]"]
      ultimo_evento_try [of env p "[GfsExists (output_file p)]"]
    by (auto simp: procesar_particion_def Let_def)
  from a b todo_liberado_worker [of env p force_reprocess] show ?thesis by blast
qed

theorem excepciones_del_worker_witness:
  "credenciales entorno_sin_credenciales = Some (Exception ''No ADC'')
   \<and> procesar_particion entorno_sin_credenciales particion_ejemplo False
       = (Return (Error 2024 7 (mensaje_autenticacion (Exception ''No ADC''))), [])
   \<and> credenciales entorno_escritura_falla = None
   \<and> gfs_exists entorno_escritura_falla (output_file particion_ejemplo) = Inr False
   \<and> primera_excepcion entorno_escritura_falla particion_ejemplo
       = Some (Exception ''quota exceeded'')
   \<and> procesar_particion entorno_escritura_falla particion_ejemplo False
       = (Return (Error 2024 7
            (''quota exceeded'' @ [CHR 0x0A]
               @ ''Traceback (most recent call last): quota exceeded'')),
          [GfsExists (output_file particion_ejemplo),
           OpenInputFile (path particion_ejemplo), ReadTable (path particion_ejemplo),
           Bind ''tabla'', FromArrow, Bind ''df'', Del ''tabla'', GcCollect,
           Bind ''df_filtrado'', Del ''df'', GcCollect,
           Makedirs (output_partition particion_ejemplo),
           OpenWb (output_file particion_ejemplo), WriteParquet (output_file particion_ejemplo),
           Del ''df_filtrado'', GcCollect])
   \<and> todo_liberado (snd (procesar_particion entorno_escritura_falla particion_ejemplo False))
   \<and> credenciales entorno_sin_columna = None
   \<and> gfs_exists entorno_sin_columna (output_file particion_ejemplo) = Inr False
   \<and> primera_excepcion entorno_sin_columna particion_ejemplo
       = Some (Exception ''unable to find column tv1'')
   \<and> procesar_particion entorno_sin_columna particion_ejemplo False
       = (Return (Error 2024 7
            (''unable to find column tv1'' @ [CHR 0x0A]
               @ ''Traceback (most recent call last): unable to find column tv1'')),
          [GfsExists (output_file particion_ejemplo),
           OpenInputFile (path particion_ejemplo), ReadTable (path particion_ejemplo),
           Bind ''tabla'', FromArrow, Bind ''df'', Del ''tabla'', GcCollect,
           Del ''df'', GcCollect])
   \<and> todo_liberado (snd (procesar_particion entorno_sin_columna particion_ejemplo False))
   \<and> \<not> todo_liberado [Bind ''df'', GcCollect]
   \<and> \<not> todo_liberado [Del ''df'', Bind ''df'', GcCollect]
   \<and> \<not> todo_liberado [Bind ''df'', Del ''df'']"
proof -
  have cr: "credenciales entorno_sin_credenciales = Some (Exception ''No ADC'')"
    by (simp add: entorno_sin_credenciales_def)
  have no: "\<not> todo_liberado [Bind ''df'', GcCollect]"
    "\<not> todo_liberado [Del ''df'', Bind ''df'', GcCollect]"
    "\<not> todo_liberado [Bind ''df'', Del ''df'']"
    by (simp_all add: todo_liberado_def retenidas_tras_def recoleccion_pendiente_def)
  have t: "todo_liberado (snd (procesar_particion entorno_escritura_falla particion_ejemplo False))"
    "todo_liberado (snd (procesar_particion entorno_sin_columna particion_ejemplo False))"
    "procesar_particion entorno_sin_credenciales particion_ejemplo False
       = (Return (Error 2024 7 (mensaje_autenticacion (Exception ''No ADC''))), [])"
    using excepciones_del_worker [where env = entorno_sin_credenciales
        and p = particion_ejemplo and force_reprocess = False]
      excepciones_del_worker [where env = entorno_escritura_falla
        and p = particion_ejemplo and force_reprocess = False]
      excepciones_del_worker [where env = entorno_sin_columna
        and p = particion_ejemplo and force_reprocess = False] cr
    by (simp_all add: particion_ejemplo_campos)
  show ?thesis
    using cr no t worker_escritura_falla worker_sin_columna
    by (simp add: entornos_ejemplo_campos primera_excepcion_ejemplos)
qed

theorem excepciones_contraejemplo:
  "credenciales entorno_sin_credenciales = Some (Exception ''No ADC'')
   \<and> procesar_particion entorno_sin_credenciales particion_ejemplo False
       = (Return (Error 2024 7 (mensaje_autenticacion (Exception ''No ADC''))), [])
   \<and> mensaje_autenticacion (Exception ''No ADC'')
       = ''Error de autenticaci'' @ [CHR 0xC3, CHR 0xB3] @ ''n GCS: No ADC''
   \<and> format_exc entorno_sin_credenciales (Exception ''No ADC'')
       = ''Traceback (most recent call last): No ADC''
   \<and> mensaje_autenticacion (Exception ''No ADC'')
       \<noteq> str (Exception ''No ADC'') @ [CHR 0x0A]
           @ format_exc entorno_sin_credenciales (Exception ''No ADC'')"
  by (simp add: procesar_particion_def entorno_sin_credenciales_def
      entorno_ya_procesado_def entorno_ejemplo_def particion_ejemplo_campos
      mensaje_autenticacion_def)

subsection \<open>The orchestrator\<close>

text \<open>
  Claim C8. For a run that reaches dispatch (connected, partitions listed, at least
  one), \<^verbatim>\<open>main\<close> returns 1 if and only if some future ended in an \<^verbatim>\<open>error\<close> result
  or raised, and 0 otherwise; futures that are all \<^verbatim>\<open>skipped\<close> give 0.
\<close>

theorem estado_de_salida:
  assumes "autenticacion env = None" and "listado env = Inr particiones" and "particiones \<noteq> []"
  shows "(main env = 1 \<longleftrightarrow> list_ex termina_en_error (completados env))
    \<and> (main env = 0 \<longleftrightarrow> \<not> list_ex termina_en_error (completados env))
    \<and> (list_all (\<lambda>f. es_skipped f) (completados env) \<longrightarrow> main env = 0)"
proof -
  have fall: "particiones_fallidas (agregar (completados env)) = 0
      \<longleftrightarrow> \<not> list_ex termina_en_error (completados env)"
    by (simp add: agregar_def fold_acumular_contadores stats_globales_inicial_def
        list_ex_iff filter_empty_conv)
  have uno: "\<not> termina_en_error f" if "es_skipped f" for f
  proof (cases f)
    case (Return r)
    then show ?thesis
      using that by (cases r) (simp_all add: es_skipped_def termina_en_error_def)
  next
    case (Raise e)
    then show ?thesis using that by (simp add: es_skipped_def)
  qed
  have sk: "\<not> list_ex termina_en_error fs" if "list_all (\<lambda>f. es_skipped f) fs" for fs
    using that uno by (auto simp: list_ex_iff list_all_iff)
  show ?thesis
    using assms fall sk [of "completados env"]
    by (simp add: main_def Let_def)
qed

theorem estado_de_salida_witness:
  "autenticacion entorno_main_ejemplo = None
   \<and> listado entorno_main_ejemplo
       = Inr [particion_ejemplo, particion_ejemplo\<lparr>week := 8\<rparr>, particion_ejemplo\<lparr>week := 9\<rparr>]
   \<and> \<not> list_ex termina_en_error (completados entorno_main_ejemplo)
   \<and> main entorno_main_ejemplo = 0
   \<and> main (entorno_main_ejemplo
       \<lparr>completados := Raise (Exception ''BrokenProcessPool'') # completados_ejemplo\<rparr>) = 1
   \<and> main (entorno_main_ejemplo
       \<lparr>completados := Return (Error 2024 7 ''quota exceeded'') # completados_ejemplo\<rparr>) = 1"
proof -
  have a: "autenticacion entorno_main_ejemplo = None"
    by (simp add: entorno_main_ejemplo_def)
  have l: "listado entorno_main_ejemplo
       = Inr [particion_ejemplo, particion_ejemplo\<lparr>week := 8\<rparr>, particion_ejemplo\<lparr>week := 9\<rparr>]"
    by (simp add: entorno_main_ejemplo_def)
  have c: "completados entorno_main_ejemplo = completados_ejemplo"
    by (simp add: entorno_main_ejemplo_def)
  have ok: "\<not> list_ex termina_en_error completados_ejemplo"
    by (simp add: completados_ejemplo_def termina_en_error_def)
  have t: "termina_en_error (Raise (Exception ''BrokenProcessPool''))"
    "termina_en_error (Return (Error 2024 7 ''quota exceeded''))"
    by (simp_all add: termina_en_error_def)
  show ?thesis
    using estado_de_salida [of entorno_main_ejemplo, OF a l]
      estado_de_salida [of "entorno_main_ejemplo
       \<lparr>completados := Raise (Exception ''BrokenProcessPool'') # completados_ejemplo\<rparr>"
        "[particion_ejemplo, particion_ejemplo\<lparr>week := 8\<rparr>, particion_ejemplo\<lparr>week := 9\<rparr>]"]
      estado_de_salida [of "entorno_main_ejemplo
       \<lparr>completados := Return (Error 2024 7 ''quota exceeded'') # completados_ejemplo\<rparr>"
        "[particion_ejemplo, particion_ejemplo\<lparr>week := 8\<rparr>, particion_ejemplo\<lparr>week := 9\<rparr>]"]
      a l c ok t
    by simp
qed

text \<open>
  Claim C9. The five totals of the batch are the sums, field by field, of the
  statistics of the \<^verbatim>\<open>success\<close> results; the three partition counters count the
  \<^verbatim>\<open>success\<close>, the \<^verbatim>\<open>skipped\<close> and the failed futures; a \<^verbatim>\<open>skipped\<close> or failed future
  leaves the five totals as they were.
\<close>

theorem totales_del_lote:
  "n_inicial (agregar fs) = sum_list (map n_inicial (stats_de_exitos fs))
   \<and> n_filtrados_tiempo (agregar fs) = sum_list (map n_filtrados_tiempo (stats_de_exitos fs))
   \<and> n_filtrados_paraderos (agregar fs)
       = sum_list (map n_filtrados_paraderos (stats_de_exitos fs))
   \<and> n_filtrados_dist (agregar fs) = sum_list (map n_filtrados_dist (stats_de_exitos fs))
   \<and> n_final (agregar fs) = sum_list (map n_final (stats_de_exitos fs))
   \<and> particiones_procesadas (agregar fs) = int (length (stats_de_exitos fs))
   \<and> particiones_skipped (agregar fs) = int (length (filter es_skipped fs))
   \<and> particiones_fallidas (agregar fs) = int (length (filter termina_en_error fs))
   \<and> (\<forall>f \<in> set fs. es_skipped f \<or> termina_en_error f \<longrightarrow>
         totales.truncate (acumular g f) = totales.truncate g)"
proof -
  have "totales.truncate (acumular g f) = totales.truncate g"
    if "es_skipped f \<or> termina_en_error f" for f
  proof (cases f)
    case (Return r)
    then show ?thesis
      using that
      by (cases r) (simp_all add: es_skipped_def termina_en_error_def totales.truncate_def)
  next
    case (Raise e)
    then show ?thesis by (simp add: totales.truncate_def)
  qed
  then show ?thesis
    by (simp add: agregar_def fold_acumular_campos fold_acumular_contadores
        stats_globales_inicial_def)
qed

theorem totales_del_lote_witness:
  "n_inicial (agregar completados_ejemplo) = 14
   \<and> n_filtrados_tiempo (agregar completados_ejemplo) = 2
   \<and> n_filtrados_paraderos (agregar completados_ejemplo) = 2
   \<and> n_filtrados_dist (agregar completados_ejemplo) = 8
   \<and> n_final (agregar completados_ejemplo) = 2
   \<and> particiones_procesadas (agregar completados_ejemplo) = 2
   \<and> particiones_skipped (agregar completados_ejemplo) = 1
   \<and> particiones_fallidas (agregar completados_ejemplo) = 0
   \<and> es_skipped (Return (Skipped 2024 8))
   \<and> Return (Skipped 2024 8) \<in> set completados_ejemplo"
  using totales_del_lote [of completados_ejemplo]
  by (simp add: completados_ejemplo_def stats_ejemplo_def es_skipped_def termina_en_error_def)

end
